theory Spec2Isabelle
  imports Main
begin

section \<open>The collaborators of the Autoregressive distribution\<close>

text \<open>
  The module \<^verbatim>\<open>autoregressive.py\<close> defines one class, \<^verbatim>\<open>Autoregressive\<close>, a combinator
  over a caller-supplied \<^verbatim>\<open>distribution_fn\<close>. Tensors of samples and densities are values
  of an arbitrary type \<open>'t\<close>; everything \<^verbatim>\<open>distribution_fn\<close> and a distribution's
  \<^verbatim>\<open>sample\<close> may read or change outside the object (variables, the random number
  generator) is a value of an arbitrary type \<open>'w\<close>, passed in and returned.
\<close>

text \<open>A \<^verbatim>\<open>tf.TensorShape\<close>: \<open>None\<close> is the shape of unknown rank
  (\<^verbatim>\<open>tf.TensorShape(None)\<close>), and a dimension \<open>None\<close> is an unknown dimension.\<close>

type_synonym tensor_shape = "nat option list option"

text \<open>A \<^verbatim>\<open>tf.DType\<close>, by its name; \<^verbatim>\<open>'{}'.format(dtype)\<close> prints
  \<^verbatim>\<open><dtype: 'float32'>\<close>.\<close>

datatype DType = DType string

fun format_dtype :: "DType \<Rightarrow> string" where
  "format_dtype (DType name) = ''<dtype: '' @ [CHR 0x27] @ name @ [CHR 0x27] @ ''>''"

datatype reparameterization_type = FULLY_REPARAMETERIZED | NOT_REPARAMETERIZED

fun format_reparameterization_type :: "reparameterization_type \<Rightarrow> string" where
  "format_reparameterization_type FULLY_REPARAMETERIZED =
     ''<Reparameterization Type: FULLY_REPARAMETERIZED>''"
| "format_reparameterization_type NOT_REPARAMETERIZED =
     ''<Reparameterization Type: NOT_REPARAMETERIZED>''"

text \<open>
  The \<^verbatim>\<open>tfd.Distribution\<close>-like instance that \<^verbatim>\<open>distribution_fn\<close> returns, with the
  members this module reads. \<open>sample\<close> takes the sample shape (\<open>[n]\<close> for
  \<^verbatim>\<open>sample(n, seed=seed)\<close>, \<open>[]\<close> for \<^verbatim>\<open>sample(seed=seed)\<close>), the seed and the outside
  state, and returns the draw and the new outside state. The shape tensors are int32
  tensors of rank 1, given by their elements.
\<close>

record ('t, 'w) distribution =
  dtype :: DType
  reparameterization_type :: reparameterization_type
  batch_shape :: tensor_shape
  event_shape :: tensor_shape
  batch_shape_tensor :: "int list"
  event_shape_tensor :: "int list"
  sample :: "nat list \<Rightarrow> int option \<Rightarrow> 'w \<Rightarrow> 't \<times> 'w"
  log_prob :: "'t \<Rightarrow> 't"
  prob :: "'t \<Rightarrow> 't"

text \<open>
  The integer tensor given as \<^verbatim>\<open>num_steps\<close>. \<open>Scalar k\<close> is a tensor of rank 0;
  \<open>Array r xs\<close> is a tensor of rank \<open>Suc r\<close> with the elements \<open>xs\<close>. \<open>is_ref\<close> is
  \<^verbatim>\<open>tensor_util.is_ref\<close> (a \<^verbatim>\<open>tf.Variable\<close>); \<open>static_known\<close> says that
  \<^verbatim>\<open>tf.get_static_value\<close> yields the value. \<open>numpy\<close> is the value read when the tensor
  is used.
\<close>

datatype tensor_value = Scalar int | Array nat "int list"

record int_tensor =
  numpy :: tensor_value
  is_ref :: bool
  static_known :: bool

definition get_static_value :: "int_tensor \<Rightarrow> tensor_value option" where
  "get_static_value t = (if static_known t then Some (numpy t) else None)"

fun rank :: "tensor_value \<Rightarrow> nat" where
  "rank (Scalar k) = 0"
| "rank (Array r xs) = Suc r"

text \<open>Modelled from the spec: \<^verbatim>\<open>tensorshape_util.num_elements\<close> is not among the sources;
  the spec calls it the total element count of the event shape, if that is statically
  known.\<close>

definition num_elements :: "tensor_shape \<Rightarrow> nat option" where
  "num_elements s =
     (case s of None \<Rightarrow> None
      | Some dims \<Rightarrow> if None \<in> set dims then None else Some (prod_list (map the dims)))"

text \<open>\<^verbatim>\<open>tf.reduce_prod\<close> of an int32 tensor: the product in signed 32-bit arithmetic, which
  wraps around.\<close>

definition int32 :: "int \<Rightarrow> int" where
  "int32 x = (x + 2147483648) mod 4294967296 - 2147483648"

definition reduce_prod :: "int list \<Rightarrow> int" where
  "reduce_prod xs = int32 (prod_list xs)"

text \<open>\<^verbatim>\<open>tensor_util.convert_nonref_to_tensor\<close> is not among the sources. It leaves \<^verbatim>\<open>None\<close> and
  a variable as they are and hands any other value to \<^verbatim>\<open>tf.convert_to_tensor\<close>, which
  raises a \<^verbatim>\<open>ValueError\<close> for an integer outside the 64-bit range.\<close>

fun in_int64 :: "tensor_value \<Rightarrow> bool" where
  "in_int64 (Scalar k) = (- 9223372036854775808 \<le> k \<and> k < 9223372036854775808)"
| "in_int64 (Array r xs) =
     list_all (\<lambda>x. - 9223372036854775808 \<le> x \<and> x < 9223372036854775808) xs"

section \<open>Errors, effects and the object\<close>

datatype error =
    ValueError string
  | InvalidArgument string
  | ValidationFailure string
  | NonScalarCount

definition convert_nonref_to_tensor :: "int_tensor option \<Rightarrow> error + int_tensor option" where
  "convert_nonref_to_tensor x =
     (case x of
        None \<Rightarrow> Inr None
      | Some t \<Rightarrow>
          if is_ref t then Inr (Some t)
          else if in_int64 (numpy t) then Inr (Some t)
          else Inl (ValueError
                 (''Can'' @ [CHR 0x27]
                  @ ''t convert Python sequence with out-of-range integer to Tensor.'')))"

text \<open>
  The calls that leave the module are recorded in order: \<open>Invoked arg\<close> is one call of
  \<^verbatim>\<open>distribution_fn\<close> (\<open>None\<close>: called with no argument), \<open>Sampled shape seed x\<close> is one
  call of a returned distribution's \<^verbatim>\<open>sample\<close> with its result \<open>x\<close>.
\<close>

datatype 't event = Invoked "'t option" | Sampled "nat list" "int option" 't

record ('t, 'w) state =
  world :: 'w
  trace :: "'t event list"

definition invoke ::
  "('t option \<Rightarrow> 'w \<Rightarrow> ('t, 'w) distribution \<times> 'w) \<Rightarrow> 't option \<Rightarrow> ('t, 'w) state
     \<Rightarrow> ('t, 'w) distribution \<times> ('t, 'w) state" where
  "invoke f arg st =
     (case f arg (world st) of
        (d, w) \<Rightarrow> (d, \<lparr>world = w, trace = trace st @ [Invoked arg]\<rparr>))"

definition call_sample ::
  "('t, 'w) distribution \<Rightarrow> nat list \<Rightarrow> int option \<Rightarrow> ('t, 'w) state \<Rightarrow> 't \<times> ('t, 'w) state" where
  "call_sample d shape seed st =
     (case sample d shape seed (world st) of
        (x, w) \<Rightarrow> (x, \<lparr>world = w, trace = trace st @ [Sampled shape seed x]\<rparr>))"

text \<open>The attributes of an \<^verbatim>\<open>Autoregressive\<close> object: \<^verbatim>\<open>_distribution_fn\<close>, \<^verbatim>\<open>_sample0\<close>,
  \<^verbatim>\<open>_num_steps\<close>, and those the base class keeps (\<^verbatim>\<open>self.dtype\<close>,
  \<^verbatim>\<open>self.reparameterization_type\<close>, \<^verbatim>\<open>self.validate_args\<close>, \<^verbatim>\<open>self.allow_nan_stats\<close>).\<close>

record ('t, 'w) autoregressive =
  distribution_fn :: "'t option \<Rightarrow> 'w \<Rightarrow> ('t, 'w) distribution \<times> 'w"
  sample0 :: "'t option"
  num_steps :: "int_tensor option"
  self_dtype :: DType
  self_reparameterization_type :: reparameterization_type
  validate_args :: bool
  allow_nan_stats :: bool

section \<open>Validation\<close>

datatype assertion =
    Assert_rank int_tensor nat string
  | Assert_positive int_tensor string

text \<open>\<^verbatim>\<open>_parameter_control_dependencies(is_init)\<close>.\<close>

definition parameter_control_dependencies ::
  "('t, 'w) autoregressive \<Rightarrow> bool \<Rightarrow> assertion list" where
  "parameter_control_dependencies self is_init =
     (if \<not> validate_args self then []
      else (case num_steps self of
              None \<Rightarrow> []
            | Some t \<Rightarrow>
                if is_init \<noteq> is_ref t
                then [Assert_rank t 0 ''Argument `num_steps` must be a scalar'',
                      Assert_positive t ''Argument `num_steps` must be positive'']
                else []))"

text \<open>Modelled from the spec: \<^verbatim>\<open>assert_util\<close> is not among the sources. An assertion on
  a statically known tensor is decided when it is made: a tensor that is not of the asked
  rank is a validation failure, one that is not strictly positive an invalid argument. An
  assertion on a tensor known only at execution is deferred.\<close>

fun positive :: "tensor_value \<Rightarrow> bool" where
  "positive (Scalar k) = (0 < k)"
| "positive (Array r xs) = list_all (\<lambda>x. 0 < x) xs"

fun static_failure :: "assertion \<Rightarrow> error option" where
  "static_failure (Assert_rank t r msg) =
     (if static_known t \<and> rank (numpy t) \<noteq> r then Some (ValidationFailure msg) else None)"
| "static_failure (Assert_positive t msg) =
     (if static_known t \<and> \<not> positive (numpy t) then Some (InvalidArgument msg) else None)"

fun first_failure :: "assertion list \<Rightarrow> error option" where
  "first_failure [] = None"
| "first_failure (a # as) =
     (case static_failure a of Some e \<Rightarrow> Some e | None \<Rightarrow> first_failure as)"

text \<open>Modelled from the spec: the base class's constructor is not among the sources. It
  collects the checks of \<^verbatim>\<open>_parameter_control_dependencies(is_init=True)\<close>, and
  construction fails with the first of them that fails.\<close>

definition Distribution_init ::
  "('t, 'w) autoregressive \<Rightarrow> error + ('t, 'w) autoregressive" where
  "Distribution_init self =
     (case first_failure (parameter_control_dependencies self True) of
        Some e \<Rightarrow> Inl e
      | None \<Rightarrow> Inr self)"

section \<open>The operations of Autoregressive\<close>

text \<open>\<^verbatim>\<open>__init__\<close>: the conversion of \<^verbatim>\<open>num_steps\<close>, one call of \<^verbatim>\<open>distribution_fn\<close>, whose
  result gives the dtype and the reparameterization type, then the base class's
  constructor. (\<^verbatim>\<open>sample0\<close> is of the arbitrary tensor type, and its conversion is the
  identity.)\<close>

definition init ::
  "('t option \<Rightarrow> 'w \<Rightarrow> ('t, 'w) distribution \<times> 'w) \<Rightarrow> 't option \<Rightarrow> int_tensor option
     \<Rightarrow> bool \<Rightarrow> bool \<Rightarrow> ('t, 'w) state
     \<Rightarrow> (error + ('t, 'w) autoregressive) \<times> ('t, 'w) state" where
  "init f s0 steps validate allow_nan st =
     (case convert_nonref_to_tensor steps of
        Inl e \<Rightarrow> (Inl e, st)
      | Inr steps' \<Rightarrow>
          (case (case s0 of Some s \<Rightarrow> invoke f (Some s) st | None \<Rightarrow> invoke f None st) of
             (distribution0, st1) \<Rightarrow>
               (Distribution_init
                  \<lparr>distribution_fn = f, sample0 = s0, num_steps = steps',
                   self_dtype = dtype distribution0,
                   self_reparameterization_type = reparameterization_type distribution0,
                   validate_args = validate, allow_nan_stats = allow_nan\<rparr>, st1)))"

text \<open>\<^verbatim>\<open>_get_distribution0\<close>.\<close>

definition get_distribution0 ::
  "('t, 'w) autoregressive \<Rightarrow> ('t, 'w) state
     \<Rightarrow> (error + ('t, 'w) distribution) \<times> ('t, 'w) state" where
  "get_distribution0 self st =
     (case (case sample0 self of
              Some s \<Rightarrow> invoke (distribution_fn self) (Some s) st
            | None \<Rightarrow> invoke (distribution_fn self) None st) of
        (ret, st1) \<Rightarrow>
          if dtype ret \<noteq> self_dtype self
          then (Inl (ValueError
                  (''`distribution_fn` returned distributions with different dtype -- ''
                   @ ''previously '' @ format_dtype (self_dtype self)
                   @ '' and now '' @ format_dtype (dtype ret))), st1)
          else if reparameterization_type ret \<noteq> self_reparameterization_type self
          then (Inl (ValueError
                  (''`distribution_fn` returned distributions with different ''
                   @ ''reparameterize_type -- previously ''
                   @ format_reparameterization_type (self_reparameterization_type self)
                   @ '' and now ''
                   @ format_reparameterization_type (reparameterization_type ret))), st1)
          else (Inr ret, st1))"

text \<open>\<^verbatim>\<open>_batch_shape\<close>, \<^verbatim>\<open>_event_shape\<close> and their tensor variants.\<close>

definition batch_shape_static ::
  "('t, 'w) autoregressive \<Rightarrow> ('t, 'w) state \<Rightarrow> tensor_shape \<times> ('t, 'w) state" where
  "batch_shape_static self st = (None, st)"

definition event_shape_static ::
  "('t, 'w) autoregressive \<Rightarrow> ('t, 'w) state \<Rightarrow> tensor_shape \<times> ('t, 'w) state" where
  "event_shape_static self st = (None, st)"

definition batch_shape_tensor_dynamic ::
  "('t, 'w) autoregressive \<Rightarrow> ('t, 'w) state \<Rightarrow> (error + int list) \<times> ('t, 'w) state" where
  "batch_shape_tensor_dynamic self st =
     (case get_distribution0 self st of
        (Inl e, st1) \<Rightarrow> (Inl e, st1)
      | (Inr d, st1) \<Rightarrow> (Inr (batch_shape_tensor d), st1))"

definition event_shape_tensor_dynamic ::
  "('t, 'w) autoregressive \<Rightarrow> ('t, 'w) state \<Rightarrow> (error + int list) \<times> ('t, 'w) state" where
  "event_shape_tensor_dynamic self st =
     (case get_distribution0 self st of
        (Inl e, st1) \<Rightarrow> (Inl e, st1)
      | (Inr d, st1) \<Rightarrow> (Inr (event_shape_tensor d), st1))"

text \<open>\<^verbatim>\<open>_log_prob\<close> and \<^verbatim>\<open>_prob\<close>.\<close>

definition log_prob_value ::
  "('t, 'w) autoregressive \<Rightarrow> 't \<Rightarrow> ('t, 'w) state \<Rightarrow> 't \<times> ('t, 'w) state" where
  "log_prob_value self v st =
     (case invoke (distribution_fn self) (Some v) st of (d, st1) \<Rightarrow> (log_prob d v, st1))"

definition prob_value ::
  "('t, 'w) autoregressive \<Rightarrow> 't \<Rightarrow> ('t, 'w) state \<Rightarrow> 't \<times> ('t, 'w) state" where
  "prob_value self v st =
     (case invoke (distribution_fn self) (Some v) st of (d, st1) \<Rightarrow> (prob d v, st1))"

text \<open>
  \<^verbatim>\<open>_sample_n\<close>. The step count is either static (\<^verbatim>\<open>num_steps_static is not None\<close>) or a
  tensor known at execution. \<^verbatim>\<open>range\<close> and \<^verbatim>\<open>tf.range\<close> take a scalar; a count that is
  not a scalar makes them raise. \<^verbatim>\<open>range(k)\<close> is empty for a negative \<open>k\<close>, while
  \<^verbatim>\<open>tf.range(0, k)\<close> raises an \<^verbatim>\<open>InvalidArgumentError\<close> (whose message goes on with the two
  bounds). \<open>SeedStream seed salt\<close> stands for
  \<^verbatim>\<open>SeedStream(seed, salt=salt)()\<close>, the first seed of a fresh stream; the class is not
  among the sources and is a parameter.
\<close>

datatype step_count = StaticCount tensor_value | DynamicCount tensor_value

definition resolve_steps ::
  "('t, 'w) autoregressive \<Rightarrow> ('t, 'w) distribution \<Rightarrow> step_count" where
  "resolve_steps self distribution0 =
     (case num_steps self of
        Some t \<Rightarrow>
          (case get_static_value t of
             Some v \<Rightarrow> StaticCount v
           | None \<Rightarrow> DynamicCount (numpy t))
      | None \<Rightarrow>
          (case num_elements (event_shape distribution0) of
             Some m \<Rightarrow> StaticCount (Scalar (int m))
           | None \<Rightarrow> DynamicCount (Scalar (reduce_prod (event_shape_tensor distribution0)))))"

fun py_range :: "tensor_value \<Rightarrow> error + nat list" where
  "py_range (Scalar k) = Inr [0..<nat k]"
| "py_range (Array r xs) = Inl NonScalarCount"

fun tf_range :: "tensor_value \<Rightarrow> error + int list" where
  "tf_range (Scalar k) =
     (if k < 0 then Inl (InvalidArgument ''Requires start <= limit when delta > 0'')
      else Inr (map int [0..<nat k]))"
| "tf_range (Array r xs) = Inl NonScalarCount"

text \<open>The body of both loops: \<^verbatim>\<open>self.distribution_fn(samples).sample(seed=seed)\<close>.\<close>

definition recurrence_step ::
  "('t, 'w) autoregressive \<Rightarrow> int option \<Rightarrow> 't \<Rightarrow> ('t, 'w) state \<Rightarrow> 't \<times> ('t, 'w) state" where
  "recurrence_step self seed samples st =
     (case invoke (distribution_fn self) (Some samples) st of
        (d, st1) \<Rightarrow> call_sample d [] seed st1)"

text \<open>\<^verbatim>\<open>for _ in range(...): samples = ...\<close>\<close>

fun for_loop :: "'i list \<Rightarrow> ('a \<Rightarrow> 's \<Rightarrow> 'a \<times> 's) \<Rightarrow> 'a \<Rightarrow> 's \<Rightarrow> 'a \<times> 's" where
  "for_loop [] body samples st = (samples, st)"
| "for_loop (i # is) body samples st =
     (case body samples st of (samples', st') \<Rightarrow> for_loop is body samples' st')"

text \<open>\<^verbatim>\<open>tf.foldl(fn, elems, initializer)\<close>\<close>

fun tf_foldl :: "('a \<Rightarrow> 'i \<Rightarrow> 's \<Rightarrow> 'a \<times> 's) \<Rightarrow> 'i list \<Rightarrow> 'a \<Rightarrow> 's \<Rightarrow> 'a \<times> 's" where
  "tf_foldl f [] acc st = (acc, st)"
| "tf_foldl f (x # xs) acc st =
     (case f acc x st of (acc', st') \<Rightarrow> tf_foldl f xs acc' st')"

definition sample_n ::
  "(int option \<Rightarrow> string \<Rightarrow> int option) \<Rightarrow> ('t, 'w) autoregressive \<Rightarrow> nat \<Rightarrow> int option
     \<Rightarrow> ('t, 'w) state \<Rightarrow> (error + 't) \<times> ('t, 'w) state" where
  "sample_n SeedStream self n seed0 st =
     (case get_distribution0 self st of
        (Inl e, st1) \<Rightarrow> (Inl e, st1)
      | (Inr distribution0, st1) \<Rightarrow>
          (let steps = resolve_steps self distribution0;
               seed = SeedStream seed0 ''Autoregressive''
           in case call_sample distribution0 [n] seed st1 of
                (samples, st2) \<Rightarrow>
                  (case steps of
                     StaticCount num_steps_static \<Rightarrow>
                       (case py_range num_steps_static of
                          Inl e \<Rightarrow> (Inl e, st2)
                        | Inr idx \<Rightarrow>
                            (case for_loop idx (recurrence_step self seed) samples st2 of
                               (samples', st3) \<Rightarrow> (Inr samples', st3)))
                   | DynamicCount num_steps_dyn \<Rightarrow>
                       (case tf_range num_steps_dyn of
                          Inl e \<Rightarrow> (Inl e, st2)
                        | Inr elems \<Rightarrow>
                            (case tf_foldl (\<lambda>s _. recurrence_step self seed s) elems samples st2 of
                               (samples', st3) \<Rightarrow> (Inr samples', st3))))))"

section \<open>Reading a trace\<close>

text \<open>The arguments of the calls of \<^verbatim>\<open>distribution_fn\<close> in a trace, the seeds of the calls
  of \<^verbatim>\<open>sample\<close>, and the events that a chain of draws \<open>s\<^sub>0, s\<^sub>1, ...\<close> leaves when each
  draw but the last is handed to \<^verbatim>\<open>distribution_fn\<close> and the returned distribution is
  sampled for the next.\<close>

fun invocations :: "'t event list \<Rightarrow> 't option list" where
  "invocations [] = []"
| "invocations (Invoked arg # es) = arg # invocations es"
| "invocations (Sampled shape seed x # es) = invocations es"

fun sample_seeds :: "'t event list \<Rightarrow> int option list" where
  "sample_seeds [] = []"
| "sample_seeds (Invoked arg # es) = sample_seeds es"
| "sample_seeds (Sampled shape seed x # es) = seed # sample_seeds es"

fun recurrence_events :: "int option \<Rightarrow> 't list \<Rightarrow> 't event list" where
  "recurrence_events seed (a # b # xs) =
     Invoked (Some a) # Sampled [] seed b # recurrence_events seed (b # xs)"
| "recurrence_events seed xs = []"

text \<open>
  The recurrence in the spec's words, to compare the loops of \<^verbatim>\<open>_sample_n\<close> with: repeat
  \<open>k\<close> times \<^verbatim>\<open>samples := distribution_fn(samples).sample(seedToken)\<close>. It is written on
  \<^verbatim>\<open>distribution_fn\<close> and \<open>sample\<close> themselves, and lists every draw with the outside state
  after it: the draw of a step is the sample of the distribution that \<^verbatim>\<open>distribution_fn\<close>
  returned on the draw of the step before.
\<close>

fun recurrence_draws ::
  "('t option \<Rightarrow> 'w \<Rightarrow> ('t, 'w) distribution \<times> 'w) \<Rightarrow> int option \<Rightarrow> nat \<Rightarrow> 't \<Rightarrow> 'w
     \<Rightarrow> ('t \<times> 'w) list" where
  "recurrence_draws f seed 0 samples w = []"
| "recurrence_draws f seed (Suc k) samples w =
     (case f (Some samples) w of
        (d, w1) \<Rightarrow>
          (case sample d [] seed w1 of
             (x, w2) \<Rightarrow> (x, w2) # recurrence_draws f seed k x w2))"

section \<open>An example\<close>

text \<open>
  A small \<^verbatim>\<open>distribution_fn\<close> on which the operations can be run. Tensors are integers,
  and the outside state counts the draws made so far. A draw with a seed is a function of
  the seed; a draw without one depends on the count. \<open>drifting_fn\<close> changes its dtype
  after its first call, \<open>wide_fn dims\<close> has an event of two dimensions \<open>dims\<close> that
  are known only at execution, and the draws of \<open>stateful_fn\<close> depend on the count
  also when they are given a seed.
\<close>

definition example_distribution ::
  "DType \<Rightarrow> tensor_shape \<Rightarrow> int \<Rightarrow> (int, nat) distribution" where
  "example_distribution dt shape loc =
     \<lparr>dtype = dt, reparameterization_type = FULLY_REPARAMETERIZED,
      batch_shape = Some [], event_shape = shape,
      batch_shape_tensor = [], event_shape_tensor = [2],
      sample = (\<lambda>sample_shape seed w.
                 (loc + (case seed of Some s \<Rightarrow> s | None \<Rightarrow> int w), Suc w)),
      log_prob = (\<lambda>x. loc - x),
      prob = (\<lambda>x. x - loc)\<rparr>"

definition example_fn :: "int option \<Rightarrow> nat \<Rightarrow> (int, nat) distribution \<times> nat" where
  "example_fn arg w =
     (example_distribution (DType ''float32'') (Some [Some 2])
        (case arg of None \<Rightarrow> 0 | Some x \<Rightarrow> 2 * x), w)"

definition unknown_shape_fn :: "int option \<Rightarrow> nat \<Rightarrow> (int, nat) distribution \<times> nat" where
  "unknown_shape_fn arg w =
     ((example_distribution (DType ''float32'') (Some [None, Some 1])
         (case arg of None \<Rightarrow> 0 | Some x \<Rightarrow> 2 * x))
      \<lparr>event_shape_tensor := [3, 1]\<rparr>, w)"

definition drifting_fn :: "int option \<Rightarrow> nat \<Rightarrow> (int, nat) distribution \<times> nat" where
  "drifting_fn arg w =
     (example_distribution (if w = 0 then DType ''float32'' else DType ''float64'')
        (Some [Some 2]) (case arg of None \<Rightarrow> 0 | Some x \<Rightarrow> 2 * x), Suc w)"

definition wide_fn ::
  "int list \<Rightarrow> int option \<Rightarrow> nat \<Rightarrow> (int, nat) distribution \<times> nat" where
  "wide_fn dims arg w =
     ((example_distribution (DType ''float32'') (Some [None, None])
         (case arg of None \<Rightarrow> 0 | Some x \<Rightarrow> 2 * x))
      \<lparr>event_shape_tensor := dims\<rparr>, w)"

definition stateful_fn :: "int option \<Rightarrow> nat \<Rightarrow> (int, nat) distribution \<times> nat" where
  "stateful_fn arg w =
     ((example_distribution (DType ''float32'') (Some [Some 2])
         (case arg of None \<Rightarrow> 0 | Some x \<Rightarrow> 2 * x))
      \<lparr>sample := (\<lambda>sample_shape seed v.
          ((case arg of None \<Rightarrow> 0 | Some x \<Rightarrow> 2 * x)
             + (case seed of Some s \<Rightarrow> s | None \<Rightarrow> 0) + int v, Suc v))\<rparr>, w)"

definition example_SeedStream :: "int option \<Rightarrow> string \<Rightarrow> int option" where
  "example_SeedStream seed salt = map_option (\<lambda>s. s + int (length salt)) seed"

definition example_self ::
  "(int option \<Rightarrow> nat \<Rightarrow> (int, nat) distribution \<times> nat) \<Rightarrow> int_tensor option
     \<Rightarrow> (int, nat) autoregressive" where
  "example_self f steps =
     \<lparr>distribution_fn = f, sample0 = Some 1, num_steps = steps,
      self_dtype = DType ''float32'',
      self_reparameterization_type = FULLY_REPARAMETERIZED,
      validate_args = False, allow_nan_stats = True\<rparr>"

definition static_steps :: "int \<Rightarrow> int_tensor" where
  "static_steps k = \<lparr>numpy = Scalar k, is_ref = False, static_known = True\<rparr>"

section \<open>Facts about the calls\<close>

lemma get_distribution0_eq:
  "get_distribution0 self st =
     (case invoke (distribution_fn self) (sample0 self) st of
        (ret, st1) \<Rightarrow>
          if dtype ret \<noteq> self_dtype self
          then (Inl (ValueError
                  (''`distribution_fn` returned distributions with different dtype -- ''
                   @ ''previously '' @ format_dtype (self_dtype self)
                   @ '' and now '' @ format_dtype (dtype ret))), st1)
          else if reparameterization_type ret \<noteq> self_reparameterization_type self
          then (Inl (ValueError
                  (''`distribution_fn` returned distributions with different ''
                   @ ''reparameterize_type -- previously ''
                   @ format_reparameterization_type (self_reparameterization_type self)
                   @ '' and now ''
                   @ format_reparameterization_type (reparameterization_type ret))), st1)
          else (Inr ret, st1))"
  unfolding get_distribution0_def by (cases "sample0 self") simp_all

lemma invoke_eq:
  "invoke f arg st =
     (fst (f arg (world st)),
      \<lparr>world = snd (f arg (world st)), trace = trace st @ [Invoked arg]\<rparr>)"
  by (simp add: invoke_def split: prod.split)

lemma call_sample_eq:
  "call_sample d shape seed st =
     (fst (sample d shape seed (world st)),
      \<lparr>world = snd (sample d shape seed (world st)),
       trace = trace st @ [Sampled shape seed (fst (sample d shape seed (world st)))]\<rparr>)"
  by (simp add: call_sample_def split: prod.split)

lemma get_distribution0_state:
  "snd (get_distribution0 self st) =
     \<lparr>world = snd (distribution_fn self (sample0 self) (world st)),
      trace = trace st @ [Invoked (sample0 self)]\<rparr>"
  by (simp add: get_distribution0_eq invoke_eq)

lemma get_distribution0_Inr:
  "get_distribution0 self st = (Inr d, st1) \<Longrightarrow>
     d = fst (distribution_fn self (sample0 self) (world st))
     \<and> dtype d = self_dtype self
     \<and> reparameterization_type d = self_reparameterization_type self
     \<and> st1 = \<lparr>world = snd (distribution_fn self (sample0 self) (world st)),
              trace = trace st @ [Invoked (sample0 self)]\<rparr>"
  by (auto simp add: get_distribution0_eq invoke_eq split: if_splits)

lemma tf_foldl_for_loop:
  "tf_foldl (\<lambda>s _. body s) elems acc st = for_loop elems body acc st"
  by (induction elems arbitrary: acc st) (simp_all split: prod.split)

lemma invocations_recurrence_events:
  "invocations (recurrence_events seed (s # outs)) = map Some (butlast (s # outs))"
  by (induction outs arbitrary: s) simp_all

lemma sample_seeds_recurrence_events:
  "sample_seeds (recurrence_events seed (s # outs)) = replicate (length outs) seed"
  by (induction outs arbitrary: s) simp_all


lemma for_loop_map:
  "for_loop (map g idx) body s st = for_loop idx body s st"
  by (induction idx arbitrary: s st) (simp_all split: prod.split)

lemma sample_n_scalar:
  assumes g: "get_distribution0 self st = (Inr d0, st1)"
    and r: "resolve_steps self d0 = StaticCount (Scalar k)
            \<or> resolve_steps self d0 = DynamicCount (Scalar k) \<and> 0 \<le> k"
  shows "sample_n SeedStream self n seed st =
     (case call_sample d0 [n] (SeedStream seed ''Autoregressive'') st1 of
        (s0, st2) \<Rightarrow>
          (case for_loop [0..<nat k]
                  (recurrence_step self (SeedStream seed ''Autoregressive'')) s0 st2 of
             (x, st3) \<Rightarrow> (Inr x, st3)))"
  using r
  by (auto simp add: sample_n_def g Let_def tf_foldl_for_loop for_loop_map
      split: prod.split)

lemma sample_n_negative:
  assumes g: "get_distribution0 self st = (Inr d0, st1)"
    and r: "resolve_steps self d0 = DynamicCount (Scalar k)" and k: "k < 0"
  shows "sample_n SeedStream self n seed st =
     (Inl (InvalidArgument ''Requires start <= limit when delta > 0''),
      snd (call_sample d0 [n] (SeedStream seed ''Autoregressive'') st1))"
  using k by (simp add: sample_n_def g r Let_def split: prod.split)

lemma length_recurrence_draws:
  "length (recurrence_draws f seed k s w) = k"
  by (induction k arbitrary: s w) (simp_all split: prod.split)

lemma recurrence_draws_step:
  "i < k \<Longrightarrow>
     recurrence_draws f seed k s w ! i =
       (case ((s, w) # recurrence_draws f seed k s w) ! i of
          (prev, v) \<Rightarrow> (case f (Some prev) v of (d, v1) \<Rightarrow> sample d [] seed v1))"
proof (induction k arbitrary: s w i)
  case 0
  then show ?case by simp
next
  case (Suc k)
  obtain d w1 where f: "f (Some s) w = (d, w1)" by (cases "f (Some s) w")
  obtain x w2 where x: "sample d [] seed w1 = (x, w2)" by (cases "sample d [] seed w1")
  show ?case
  proof (cases i)
    case 0
    then show ?thesis by (simp add: f x)
  next
    case (Suc j)
    then have "j < k" using Suc.prems by simp
    from Suc.IH [OF this, of x w2] show ?thesis by (simp add: f x Suc)
  qed
qed

lemma for_loop_draws:
  "for_loop idx (recurrence_step self seed) s st =
     (fst (last ((s, world st)
        # recurrence_draws (distribution_fn self) seed (length idx) s (world st))),
      \<lparr>world = snd (last ((s, world st)
        # recurrence_draws (distribution_fn self) seed (length idx) s (world st))),
       trace = trace st @ recurrence_events seed
         (s # map fst (recurrence_draws (distribution_fn self) seed (length idx) s
            (world st)))\<rparr>)"
proof (induction idx arbitrary: s st)
  case Nil
  show ?case by simp
next
  case (Cons i idx)
  let ?f = "distribution_fn self"
  obtain d w1 where f: "?f (Some s) (world st) = (d, w1)"
    by (cases "?f (Some s) (world st)")
  obtain x w2 where x: "sample d [] seed w1 = (x, w2)" by (cases "sample d [] seed w1")
  have step: "recurrence_step self seed s st =
      (x, \<lparr>world = w2, trace = trace st @ [Invoked (Some s), Sampled [] seed x]\<rparr>)"
    by (simp add: recurrence_step_def invoke_def call_sample_def f x)
  show ?case
    by (simp add: step Cons.IH f x)
qed

lemma sample_n_scalar_draws:
  assumes g: "get_distribution0 self st = (Inr d0, st1)"
    and r: "resolve_steps self d0 = StaticCount (Scalar k)
            \<or> resolve_steps self d0 = DynamicCount (Scalar k) \<and> 0 \<le> k"
    and b: "sample d0 [n] (SeedStream seed ''Autoregressive'') (world st1) = (base, w0)"
  shows "sample_n SeedStream self n seed st =
     (Inr (fst (last ((base, w0)
        # recurrence_draws (distribution_fn self) (SeedStream seed ''Autoregressive'')
            (nat k) base w0))),
      \<lparr>world = snd (last ((base, w0)
        # recurrence_draws (distribution_fn self) (SeedStream seed ''Autoregressive'')
            (nat k) base w0)),
       trace = trace st @ Invoked (sample0 self)
         # Sampled [n] (SeedStream seed ''Autoregressive'') base
         # recurrence_events (SeedStream seed ''Autoregressive'')
             (base # map fst (recurrence_draws (distribution_fn self)
                (SeedStream seed ''Autoregressive'') (nat k) base w0))\<rparr>)"
proof -
  have t1: "trace st1 = trace st @ [Invoked (sample0 self)]"
    using get_distribution0_Inr [OF g] by simp
  show ?thesis
    by (simp add: sample_n_scalar [OF g r] call_sample_def b for_loop_draws t1)
qed

lemma fst_last_Cons:
  "fst (last (p # ps)) = last (fst p # map fst ps)"
  by (induction ps arbitrary: p) simp_all

lemma sample_n_scalar_trace:
  assumes g: "get_distribution0 self st = (Inr d0, st1)"
    and r: "resolve_steps self d0 = StaticCount (Scalar k)
            \<or> resolve_steps self d0 = DynamicCount (Scalar k) \<and> 0 \<le> k"
  shows "\<exists>outs. length outs = nat k
     \<and> fst (sample_n SeedStream self n seed st) =
         Inr (last (fst (sample d0 [n] (SeedStream seed ''Autoregressive'') (world st1)) # outs))
     \<and> trace (snd (sample_n SeedStream self n seed st)) =
         trace st @ Invoked (sample0 self)
           # Sampled [n] (SeedStream seed ''Autoregressive'')
               (fst (sample d0 [n] (SeedStream seed ''Autoregressive'') (world st1)))
           # recurrence_events (SeedStream seed ''Autoregressive'')
               (fst (sample d0 [n] (SeedStream seed ''Autoregressive'') (world st1)) # outs)"
proof -
  let ?tok = "SeedStream seed ''Autoregressive''"
  obtain base w0 where b: "sample d0 [n] ?tok (world st1) = (base, w0)"
    by (cases "sample d0 [n] ?tok (world st1)")
  let ?ch = "recurrence_draws (distribution_fn self) ?tok (nat k) base w0"
  have "length (map fst ?ch) = nat k" by (simp add: length_recurrence_draws)
  moreover have "fst (sample_n SeedStream self n seed st) = Inr (last (base # map fst ?ch))"
    by (simp only: sample_n_scalar_draws [where SeedStream = SeedStream and seed = seed, OF g r b]
        fst_conv fst_last_Cons)
  moreover have "trace (snd (sample_n SeedStream self n seed st)) =
      trace st @ Invoked (sample0 self) # Sampled [n] ?tok base
        # recurrence_events ?tok (base # map fst ?ch)"
    by (simp add: sample_n_scalar_draws [where SeedStream = SeedStream and seed = seed, OF g r b])
  ultimately show ?thesis unfolding b fst_conv by blast
qed

section \<open>Sampling with a static step count\<close>

text \<open>
  C1. Let \<^verbatim>\<open>num_steps\<close> be a statically known scalar \<open>k \<ge> 1\<close>, let the base distribution
  materialize, let \<open>base\<close> be the base draw \<^verbatim>\<open>distribution0.sample(n, seed=seed)\<close>, and let
  \<open>draws\<close> be the \<open>k\<close> draws of the recurrence started at \<open>base\<close>. Then
  \<^verbatim>\<open>_sample_n(n, seed)\<close> returns the last of them, the draw of the \<open>k\<close>-th step. Each draw
  is the sample of the distribution that \<^verbatim>\<open>distribution_fn\<close> returned on the draw before
  it (on \<open>base\<close> for the first), taken in the outside state that call left.
  \<^verbatim>\<open>distribution_fn\<close> is called exactly \<open>k + 1\<close> times: on \<^verbatim>\<open>sample0\<close>, on \<open>base\<close>, and on
  every draw but the last; the trace is the first call, the base draw, and \<open>k\<close> pairs of
  a call and a draw.
\<close>

theorem sample_n_static_steps:
  assumes "num_steps self = Some t" and "static_known t" and "numpy t = Scalar k"
    and "1 \<le> k"
    and "get_distribution0 self st = (Inr distribution0, st1)"
    and "tok = SeedStream seed ''Autoregressive''"
    and "sample distribution0 [n] tok (world st1) = (base, w)"
    and "draws = recurrence_draws (distribution_fn self) tok (nat k) base w"
  shows "sample_n SeedStream self n seed st =
       (Inr (fst (last draws)),
        \<lparr>world = snd (last draws),
         trace = trace st @ Invoked (sample0 self) # Sampled [n] tok base
           # recurrence_events tok (base # map fst draws)\<rparr>)
     \<and> length draws = nat k
     \<and> (\<forall>i<nat k. draws ! i =
           (case ((base, w) # draws) ! i of
              (prev, v) \<Rightarrow>
                (case distribution_fn self (Some prev) v of
                   (d, v1) \<Rightarrow> sample d [] tok v1)))
     \<and> invocations (drop (length (trace st))
           (trace (snd (sample_n SeedStream self n seed st)))) =
         sample0 self # map Some (butlast (base # map fst draws))
     \<and> length (invocations (drop (length (trace st))
           (trace (snd (sample_n SeedStream self n seed st))))) = nat k + 1"
proof -
  have r: "resolve_steps self distribution0 = StaticCount (Scalar k)
           \<or> resolve_steps self distribution0 = DynamicCount (Scalar k) \<and> 0 \<le> k"
    using assms(1-3) by (simp add: resolve_steps_def get_static_value_def)
  have len: "length draws = nat k"
    unfolding assms(8) by (rule length_recurrence_draws)
  then have ne: "draws \<noteq> []" using assms(4) by auto
  have res: "sample_n SeedStream self n seed st =
       (Inr (fst (last draws)),
        \<lparr>world = snd (last draws),
         trace = trace st @ Invoked (sample0 self) # Sampled [n] tok base
           # recurrence_events tok (base # map fst draws)\<rparr>)"
    using sample_n_scalar_draws
      [where SeedStream = SeedStream and seed = seed, OF assms(5) r assms(7) [unfolded assms(6)]]
      ne
    unfolding assms(8) assms(6) by simp
  have step: "\<forall>i<nat k. draws ! i =
           (case ((base, w) # draws) ! i of
              (prev, v) \<Rightarrow>
                (case distribution_fn self (Some prev) v of
                   (d, v1) \<Rightarrow> sample d [] tok v1))"
    unfolding assms(8) by (simp add: recurrence_draws_step)
  have inv: "invocations (drop (length (trace st))
           (trace (snd (sample_n SeedStream self n seed st)))) =
         sample0 self # map Some (butlast (base # map fst draws))"
    unfolding res by (simp add: invocations_recurrence_events del: butlast.simps)
  have "length (invocations (drop (length (trace st))
           (trace (snd (sample_n SeedStream self n seed st))))) = nat k + 1"
    unfolding inv using len ne assms(4) by simp
  with res len step inv show ?thesis by (intro conjI)
qed

theorem sample_n_static_steps_witness:
  "sample_n example_SeedStream (example_self example_fn (Some (static_steps 2))) 3 (Some 4)
       \<lparr>world = 0, trace = []\<rparr> =
     (Inr 134,
      \<lparr>world = 3,
       trace = [Invoked (Some 1), Sampled [3] (Some 18) 20, Invoked (Some 20),
                Sampled [] (Some 18) 58, Invoked (Some 58), Sampled [] (Some 18) 134]\<rparr>)
   \<and> invocations (drop 0 (trace (snd (sample_n example_SeedStream
        (example_self example_fn (Some (static_steps 2))) 3 (Some 4)
        \<lparr>world = 0, trace = []\<rparr>)))) = [Some 1, Some 20, Some 58]
   \<and> [(58, 2), (134, 3)] ! 1 =
       (case example_fn (Some 58) 2 of (d, v1) \<Rightarrow> sample d [] (Some 18) v1)"
proof -
  let ?self = "example_self example_fn (Some (static_steps 2))"
  let ?st = "\<lparr>world = 0::nat, trace = [] :: int event list\<rparr>"
  let ?d0 = "example_distribution (DType ''float32'') (Some [Some 2]) 2"
  have h1: "num_steps ?self = Some (static_steps 2)" by (simp add: example_self_def)
  have h2: "static_known (static_steps 2)" by (simp add: static_steps_def)
  have h3: "numpy (static_steps 2) = Scalar 2" by (simp add: static_steps_def)
  have h4: "(1::int) \<le> 2" by simp
  have h5: "get_distribution0 ?self ?st =
      (Inr ?d0, \<lparr>world = 0, trace = [Invoked (Some 1)]\<rparr>)"
    by (simp add: get_distribution0_def invoke_def example_self_def example_fn_def
        example_distribution_def)
  have h6: "Some 18 = example_SeedStream (Some 4) ''Autoregressive''"
    by (simp add: example_SeedStream_def)
  have h7: "sample ?d0 [3] (Some 18)
      (world \<lparr>world = 0::nat, trace = [Invoked (Some (1::int))]\<rparr>) = (20, 1)"
    by (simp add: example_distribution_def)
  have h8: "[(58, 2), (134, 3)] =
      recurrence_draws (distribution_fn ?self) (Some 18) (nat 2) 20 1"
    by (simp add: numeral_2_eq_2 example_self_def example_fn_def example_distribution_def)
  note T = sample_n_static_steps
    [where SeedStream = example_SeedStream and seed = "Some 4", OF h1 h2 h3 h4 h5 h6 h7 h8]
  have a: "sample_n example_SeedStream ?self 3 (Some 4) ?st =
     (Inr 134,
      \<lparr>world = 3,
       trace = [Invoked (Some 1), Sampled [3] (Some 18) 20, Invoked (Some 20),
                Sampled [] (Some 18) 58, Invoked (Some 58), Sampled [] (Some 18) 134]\<rparr>)"
    using T [THEN conjunct1] by (simp add: example_self_def)
  have b: "invocations (drop 0 (trace (snd (sample_n example_SeedStream ?self 3 (Some 4)
      ?st)))) = [Some 1, Some 20, Some 58]"
    using T [THEN conjunct2, THEN conjunct2, THEN conjunct2, THEN conjunct1]
    by (simp add: example_self_def)
  have c: "[(58, 2), (134, 3)] ! 1 =
       (case example_fn (Some 58) 2 of (d, v1) \<Rightarrow> sample d [] (Some 18) v1)"
    using T [THEN conjunct2, THEN conjunct2, THEN conjunct1, rule_format, of 1]
    by (simp add: example_self_def)
  show ?thesis using a b c by blast
qed

section \<open>Density evaluation\<close>

text \<open>
  C2. For every value \<open>v\<close>, \<^verbatim>\<open>_log_prob(v)\<close> calls \<^verbatim>\<open>distribution_fn\<close> exactly once, with
  the argument \<open>v\<close>, and returns the \<^verbatim>\<open>log_prob(v)\<close> of the distribution that call
  returned; \<^verbatim>\<open>_prob(v)\<close> does the same with \<^verbatim>\<open>prob(v)\<close>. Nothing else is called: the trace
  grows by that one call, and the outside state is the one \<^verbatim>\<open>distribution_fn\<close> left.
\<close>

theorem log_prob_single_delegation:
  "log_prob_value self v st =
     (log_prob (fst (distribution_fn self (Some v) (world st))) v,
      \<lparr>world = snd (distribution_fn self (Some v) (world st)),
       trace = trace st @ [Invoked (Some v)]\<rparr>)
   \<and> prob_value self v st =
     (prob (fst (distribution_fn self (Some v) (world st))) v,
      \<lparr>world = snd (distribution_fn self (Some v) (world st)),
       trace = trace st @ [Invoked (Some v)]\<rparr>)"
  by (simp add: log_prob_value_def prob_value_def invoke_def split: prod.split)

section \<open>Consistency of the materialized distribution\<close>

text \<open>
  C4. Let \<open>ret\<close> be the distribution that \<^verbatim>\<open>distribution_fn\<close> returns when the base
  distribution is materialized. If its dtype or its reparameterization type differs from
  the one recorded at construction, then \<^verbatim>\<open>_get_distribution0\<close>, \<^verbatim>\<open>_sample_n\<close>,
  \<^verbatim>\<open>_batch_shape_tensor\<close> and \<^verbatim>\<open>_event_shape_tensor\<close> all raise a \<^verbatim>\<open>ValueError\<close>, after that
  one call of \<^verbatim>\<open>distribution_fn\<close>. The message names the recorded value and the
  returned value: the two dtypes when the dtypes differ, the two reparameterization types
  otherwise. No result is returned.
\<close>

theorem materialization_consistency_error:
  assumes "ret = fst (distribution_fn self (sample0 self) (world st))"
    and "st1 = \<lparr>world = snd (distribution_fn self (sample0 self) (world st)),
                 trace = trace st @ [Invoked (sample0 self)]\<rparr>"
    and "err =
      (if dtype ret \<noteq> self_dtype self
       then ValueError
              (''`distribution_fn` returned distributions with different dtype -- ''
               @ ''previously '' @ format_dtype (self_dtype self)
               @ '' and now '' @ format_dtype (dtype ret))
       else ValueError
              (''`distribution_fn` returned distributions with different ''
               @ ''reparameterize_type -- previously ''
               @ format_reparameterization_type (self_reparameterization_type self)
               @ '' and now ''
               @ format_reparameterization_type (reparameterization_type ret)))"
    and "dtype ret \<noteq> self_dtype self
         \<or> reparameterization_type ret \<noteq> self_reparameterization_type self"
  shows "get_distribution0 self st = (Inl err, st1)
     \<and> sample_n SeedStream self n seed st = (Inl err, st1)
     \<and> batch_shape_tensor_dynamic self st = (Inl err, st1)
     \<and> event_shape_tensor_dynamic self st = (Inl err, st1)"
proof -
  have g: "get_distribution0 self st = (Inl err, st1)"
    using assms(4) unfolding assms(1-3) by (auto simp add: get_distribution0_eq invoke_eq)
  show ?thesis
    by (simp add: g sample_n_def batch_shape_tensor_dynamic_def event_shape_tensor_dynamic_def)
qed

theorem materialization_consistency_error_witness:
  "(get_distribution0 (example_self drifting_fn None) \<lparr>world = 1, trace = []\<rparr> =
      (Inl (ValueError
              (''`distribution_fn` returned distributions with different dtype -- ''
               @ ''previously '' @ format_dtype (DType ''float32'')
               @ '' and now '' @ format_dtype (DType ''float64''))),
       \<lparr>world = 2, trace = [Invoked (Some 1)]\<rparr>)
    \<and> sample_n example_SeedStream (example_self drifting_fn None) 3 (Some 4)
        \<lparr>world = 1, trace = []\<rparr> =
      (Inl (ValueError
              (''`distribution_fn` returned distributions with different dtype -- ''
               @ ''previously '' @ format_dtype (DType ''float32'')
               @ '' and now '' @ format_dtype (DType ''float64''))),
       \<lparr>world = 2, trace = [Invoked (Some 1)]\<rparr>)
    \<and> batch_shape_tensor_dynamic (example_self drifting_fn None) \<lparr>world = 1, trace = []\<rparr> =
      (Inl (ValueError
              (''`distribution_fn` returned distributions with different dtype -- ''
               @ ''previously '' @ format_dtype (DType ''float32'')
               @ '' and now '' @ format_dtype (DType ''float64''))),
       \<lparr>world = 2, trace = [Invoked (Some 1)]\<rparr>)
    \<and> event_shape_tensor_dynamic (example_self drifting_fn None) \<lparr>world = 1, trace = []\<rparr> =
      (Inl (ValueError
              (''`distribution_fn` returned distributions with different dtype -- ''
               @ ''previously '' @ format_dtype (DType ''float32'')
               @ '' and now '' @ format_dtype (DType ''float64''))),
       \<lparr>world = 2, trace = [Invoked (Some 1)]\<rparr>))
   \<and> fst (get_distribution0
        ((example_self example_fn None)\<lparr>self_reparameterization_type := NOT_REPARAMETERIZED\<rparr>)
        \<lparr>world = 0, trace = []\<rparr>) =
      Inl (ValueError
             (''`distribution_fn` returned distributions with different ''
              @ ''reparameterize_type -- previously ''
              @ format_reparameterization_type NOT_REPARAMETERIZED
              @ '' and now ''
              @ format_reparameterization_type FULLY_REPARAMETERIZED))"
proof -
  let ?self = "example_self drifting_fn None"
  let ?st = "\<lparr>world = 1::nat, trace = [] :: int event list\<rparr>"
  let ?ret = "example_distribution (DType ''float64'') (Some [Some 2]) 2"
  let ?err = "ValueError
              (''`distribution_fn` returned distributions with different dtype -- ''
               @ ''previously '' @ format_dtype (DType ''float32'')
               @ '' and now '' @ format_dtype (DType ''float64''))"
  have h1: "?ret = fst (distribution_fn ?self (sample0 ?self) (world ?st))"
    by (simp add: example_self_def drifting_fn_def)
  have h2: "\<lparr>world = 2::nat, trace = [Invoked (Some (1::int))]\<rparr> =
      \<lparr>world = snd (distribution_fn ?self (sample0 ?self) (world ?st)),
       trace = trace ?st @ [Invoked (sample0 ?self)]\<rparr>"
    by (simp add: example_self_def drifting_fn_def)
  have h3: "?err =
      (if dtype ?ret \<noteq> self_dtype ?self
       then ValueError
              (''`distribution_fn` returned distributions with different dtype -- ''
               @ ''previously '' @ format_dtype (self_dtype ?self)
               @ '' and now '' @ format_dtype (dtype ?ret))
       else ValueError
              (''`distribution_fn` returned distributions with different ''
               @ ''reparameterize_type -- previously ''
               @ format_reparameterization_type (self_reparameterization_type ?self)
               @ '' and now ''
               @ format_reparameterization_type (reparameterization_type ?ret)))"
    by (simp add: example_self_def example_distribution_def)
  have h4: "dtype ?ret \<noteq> self_dtype ?self
      \<or> reparameterization_type ?ret \<noteq> self_reparameterization_type ?self"
    by (simp add: example_self_def example_distribution_def)
  let ?self' = "(example_self example_fn None)\<lparr>self_reparameterization_type := NOT_REPARAMETERIZED\<rparr>"
  let ?st' = "\<lparr>world = 0::nat, trace = [] :: int event list\<rparr>"
  let ?ret' = "example_distribution (DType ''float32'') (Some [Some 2]) 2"
  let ?err' = "ValueError
             (''`distribution_fn` returned distributions with different ''
              @ ''reparameterize_type -- previously ''
              @ format_reparameterization_type NOT_REPARAMETERIZED
              @ '' and now ''
              @ format_reparameterization_type FULLY_REPARAMETERIZED)"
  have k1: "?ret' = fst (distribution_fn ?self' (sample0 ?self') (world ?st'))"
    by (simp add: example_self_def example_fn_def)
  have k2: "\<lparr>world = 0::nat, trace = [Invoked (Some (1::int))]\<rparr> =
      \<lparr>world = snd (distribution_fn ?self' (sample0 ?self') (world ?st')),
       trace = trace ?st' @ [Invoked (sample0 ?self')]\<rparr>"
    by (simp add: example_self_def example_fn_def)
  have k3: "?err' =
      (if dtype ?ret' \<noteq> self_dtype ?self'
       then ValueError
              (''`distribution_fn` returned distributions with different dtype -- ''
               @ ''previously '' @ format_dtype (self_dtype ?self')
               @ '' and now '' @ format_dtype (dtype ?ret'))
       else ValueError
              (''`distribution_fn` returned distributions with different ''
               @ ''reparameterize_type -- previously ''
               @ format_reparameterization_type (self_reparameterization_type ?self')
               @ '' and now ''
               @ format_reparameterization_type (reparameterization_type ?ret')))"
    by (simp add: example_self_def example_distribution_def)
  have k4: "dtype ?ret' \<noteq> self_dtype ?self'
      \<or> reparameterization_type ?ret' \<noteq> self_reparameterization_type ?self'"
    by (simp add: example_self_def example_distribution_def)
  have a: "get_distribution0 ?self ?st = (Inl ?err, \<lparr>world = 2, trace = [Invoked (Some 1)]\<rparr>)
     \<and> sample_n example_SeedStream ?self 3 (Some 4) ?st
         = (Inl ?err, \<lparr>world = 2, trace = [Invoked (Some 1)]\<rparr>)
     \<and> batch_shape_tensor_dynamic ?self ?st
         = (Inl ?err, \<lparr>world = 2, trace = [Invoked (Some 1)]\<rparr>)
     \<and> event_shape_tensor_dynamic ?self ?st
         = (Inl ?err, \<lparr>world = 2, trace = [Invoked (Some 1)]\<rparr>)"
    by (rule materialization_consistency_error [OF h1 h2 h3 h4])
  have b: "get_distribution0 ?self' ?st' =
      (Inl ?err', \<lparr>world = 0, trace = [Invoked (Some 1)]\<rparr>)"
    using materialization_consistency_error
      [where SeedStream = example_SeedStream and n = 3 and seed = None, OF k1 k2 k3 k4]
    by blast
  show ?thesis using a b by simp
qed

section \<open>Shape queries\<close>

text \<open>
  C8. \<^verbatim>\<open>_batch_shape\<close> and \<^verbatim>\<open>_event_shape\<close> always return the shape of unknown rank and
  leave the state as it is: no call of \<^verbatim>\<open>distribution_fn\<close>, no draw. When the base
  distribution materializes, \<^verbatim>\<open>_batch_shape_tensor\<close> and \<^verbatim>\<open>_event_shape_tensor\<close> return the batch shape
  tensor and the event shape tensor of that fresh distribution, the one
  \<^verbatim>\<open>distribution_fn\<close> returned on \<^verbatim>\<open>sample0\<close>, after that one call.
\<close>

theorem shape_queries:
  "batch_shape_static self st = (None, st)
   \<and> event_shape_static self st = (None, st)
   \<and> (\<forall>d st1. get_distribution0 self st = (Inr d, st1) \<longrightarrow>
          batch_shape_tensor_dynamic self st = (Inr (batch_shape_tensor d), st1)
        \<and> event_shape_tensor_dynamic self st = (Inr (event_shape_tensor d), st1)
        \<and> d = fst (distribution_fn self (sample0 self) (world st))
        \<and> st1 = \<lparr>world = snd (distribution_fn self (sample0 self) (world st)),
                  trace = trace st @ [Invoked (sample0 self)]\<rparr>)"
proof -
  have "batch_shape_tensor_dynamic self st = (Inr (batch_shape_tensor d), st1)
        \<and> event_shape_tensor_dynamic self st = (Inr (event_shape_tensor d), st1)
        \<and> d = fst (distribution_fn self (sample0 self) (world st))
        \<and> st1 = \<lparr>world = snd (distribution_fn self (sample0 self) (world st)),
                  trace = trace st @ [Invoked (sample0 self)]\<rparr>"
    if g: "get_distribution0 self st = (Inr d, st1)" for d st1
    using get_distribution0_Inr [OF g]
    by (simp add: g batch_shape_tensor_dynamic_def event_shape_tensor_dynamic_def)
  then show ?thesis
    by (simp add: batch_shape_static_def event_shape_static_def)
qed

theorem shape_queries_witness:
  "batch_shape_static (example_self example_fn None) \<lparr>world = 0, trace = []\<rparr>
       = (None, \<lparr>world = 0, trace = []\<rparr>)
     \<and> event_shape_static (example_self example_fn None) \<lparr>world = 0, trace = []\<rparr>
       = (None, \<lparr>world = 0, trace = []\<rparr>)
     \<and> batch_shape_tensor_dynamic (example_self example_fn None) \<lparr>world = 0, trace = []\<rparr>
       = (Inr [], \<lparr>world = 0, trace = [Invoked (Some 1)]\<rparr>)
     \<and> event_shape_tensor_dynamic (example_self example_fn None) \<lparr>world = 0, trace = []\<rparr>
       = (Inr [2], \<lparr>world = 0, trace = [Invoked (Some 1)]\<rparr>)"
proof -
  let ?self = "example_self example_fn None"
  let ?st = "\<lparr>world = 0::nat, trace = [] :: int event list\<rparr>"
  let ?d0 = "example_distribution (DType ''float32'') (Some [Some 2]) 2"
  have h: "get_distribution0 ?self ?st =
      (Inr ?d0, \<lparr>world = 0, trace = [Invoked (Some 1)]\<rparr>)"
    by (simp add: get_distribution0_def invoke_def example_self_def example_fn_def
        example_distribution_def)
  note static = shape_queries [of ?self ?st, THEN conjunct1]
    shape_queries [of ?self ?st, THEN conjunct2, THEN conjunct1]
  note dynamic = shape_queries [of ?self ?st, THEN conjunct2, THEN conjunct2, rule_format, OF h]
  show ?thesis using static dynamic by (simp add: example_distribution_def)
qed

section \<open>Density evaluation is not checked\<close>

text \<open>
  C9. \<^verbatim>\<open>_log_prob(v)\<close> and \<^verbatim>\<open>_prob(v)\<close> call \<^verbatim>\<open>distribution_fn(v)\<close> directly. When the
  distribution it returns has a dtype or a reparameterization type other than the
  recorded one, they still return its \<^verbatim>\<open>log_prob(v)\<close> and \<^verbatim>\<open>prob(v)\<close>, and no error is
  raised, although materializing the same distribution through \<^verbatim>\<open>_get_distribution0\<close>
  (with \<open>v\<close> as \<^verbatim>\<open>sample0\<close>) raises.
\<close>

theorem density_unchecked:
  assumes "d = fst (distribution_fn self (Some v) (world st))"
    and "st1 = \<lparr>world = snd (distribution_fn self (Some v) (world st)),
                 trace = trace st @ [Invoked (Some v)]\<rparr>"
    and "dtype d \<noteq> self_dtype self
         \<or> reparameterization_type d \<noteq> self_reparameterization_type self"
  shows "log_prob_value self v st = (log_prob d v, st1)
     \<and> prob_value self v st = (prob d v, st1)
     \<and> (\<exists>e. get_distribution0 (self\<lparr>sample0 := Some v\<rparr>) st = (Inl e, st1))"
  using assms(3) unfolding assms(1,2)
  by (auto simp add: log_prob_value_def prob_value_def invoke_eq get_distribution0_eq)

theorem density_unchecked_witness:
  "log_prob_value (example_self drifting_fn None) 5 \<lparr>world = 1, trace = []\<rparr>
       = (5, \<lparr>world = 2, trace = [Invoked (Some 5)]\<rparr>)
   \<and> prob_value (example_self drifting_fn None) 5 \<lparr>world = 1, trace = []\<rparr>
       = (- 5, \<lparr>world = 2, trace = [Invoked (Some 5)]\<rparr>)
   \<and> (\<exists>e. get_distribution0 ((example_self drifting_fn None)\<lparr>sample0 := Some 5\<rparr>)
          \<lparr>world = 1, trace = []\<rparr> = (Inl e, \<lparr>world = 2, trace = [Invoked (Some 5)]\<rparr>))"
proof -
  let ?self = "example_self drifting_fn None"
  let ?st = "\<lparr>world = 1::nat, trace = [] :: int event list\<rparr>"
  let ?d = "example_distribution (DType ''float64'') (Some [Some 2]) 10"
  have h1: "?d = fst (distribution_fn ?self (Some 5) (world ?st))"
    by (simp add: example_self_def drifting_fn_def)
  have h2: "\<lparr>world = 2::nat, trace = [Invoked (Some (5::int))]\<rparr> =
      \<lparr>world = snd (distribution_fn ?self (Some 5) (world ?st)),
       trace = trace ?st @ [Invoked (Some 5)]\<rparr>"
    by (simp add: example_self_def drifting_fn_def)
  have h3: "dtype ?d \<noteq> self_dtype ?self
      \<or> reparameterization_type ?d \<noteq> self_reparameterization_type ?self"
    by (simp add: example_self_def example_distribution_def)
  show ?thesis using density_unchecked [OF h1 h2 h3] by (simp add: example_distribution_def)
qed

section \<open>Construction and the step count\<close>

text \<open>The constructor, with its one call of \<^verbatim>\<open>distribution_fn\<close> written out, for a
  \<^verbatim>\<open>num_steps\<close> that converts.\<close>

lemma convert_scalar:
  "numpy t = Scalar k \<Longrightarrow> - 9223372036854775808 \<le> k \<Longrightarrow> k < 9223372036854775808 \<Longrightarrow>
     convert_nonref_to_tensor (Some t) = Inr (Some t)"
  by (simp add: convert_nonref_to_tensor_def)

lemma init_eq:
  "convert_nonref_to_tensor steps = Inr steps' \<Longrightarrow>
   init f s0 steps validate allow_nan st =
     (Distribution_init
        \<lparr>distribution_fn = f, sample0 = s0, num_steps = steps',
         self_dtype = dtype (fst (f s0 (world st))),
         self_reparameterization_type = reparameterization_type (fst (f s0 (world st))),
         validate_args = validate, allow_nan_stats = allow_nan\<rparr>,
      \<lparr>world = snd (f s0 (world st)), trace = trace st @ [Invoked s0]\<rparr>)"
  unfolding init_def by (cases s0) (simp_all add: invoke_eq)

text \<open>
  C3. The docstring of \<^verbatim>\<open>__init__\<close> says \<^verbatim>\<open>Raises: ValueError: if num_steps < 1\<close>, and the claim
  says the same of a statically known \<^verbatim>\<open>num_steps\<close>. The code does not: \<^verbatim>\<open>__init__\<close> has no
  check of its own, and with \<^verbatim>\<open>validate_args=False\<close>, the default, the checks of
  \<^verbatim>\<open>_parameter_control_dependencies\<close> are not made. Construction with the statically
  known \<^verbatim>\<open>num_steps = 0\<close> returns the object, after the one call of \<^verbatim>\<open>distribution_fn\<close>.
\<close>

theorem init_accepts_zero_steps_unvalidated:
  "init example_fn (Some 1) (Some (static_steps 0)) False True \<lparr>world = 0, trace = []\<rparr> =
     (Inr (example_self example_fn (Some (static_steps 0))),
      \<lparr>world = 0, trace = [Invoked (Some 1)]\<rparr>)"
proof -
  have v: "convert_nonref_to_tensor (Some (static_steps 0)) = Inr (Some (static_steps 0))"
    by (simp add: convert_nonref_to_tensor_def static_steps_def)
  show ?thesis
    by (simp add: init_eq [OF v] Distribution_init_def parameter_control_dependencies_def
        example_self_def example_fn_def example_distribution_def)
qed

text \<open>
  With \<^verbatim>\<open>validate_args=True\<close> the constructor does what the claim says, for a statically
  known scalar that is not a variable: it fails with the invalid argument error of the
  positivity check exactly when \<open>k < 1\<close>. A \<^verbatim>\<open>num_steps\<close> outside the 64-bit range does not
  convert, and construction fails before \<^verbatim>\<open>distribution_fn\<close> is called.
\<close>

lemma init_validated:
  assumes "static_known t" and "\<not> is_ref t" and "numpy t = Scalar k"
    and "- 9223372036854775808 \<le> k" and "k < 9223372036854775808"
  shows "fst (init f s0 (Some t) True allow_nan st) =
     (if k < 1
      then Inl (InvalidArgument ''Argument `num_steps` must be positive'')
      else Inr \<lparr>distribution_fn = f, sample0 = s0, num_steps = Some t,
             self_dtype = dtype (fst (f s0 (world st))),
             self_reparameterization_type =
               reparameterization_type (fst (f s0 (world st))),
             validate_args = True, allow_nan_stats = allow_nan\<rparr>)"
  using assms(1-3)
  by (simp add: init_eq [OF convert_scalar [OF assms(3-5)]] Distribution_init_def
      parameter_control_dependencies_def)

lemma init_out_of_range:
  assumes "\<not> is_ref t" and "numpy t = Scalar k" and "9223372036854775808 \<le> k"
  shows "init f s0 (Some t) validate allow_nan st =
     (Inl (ValueError
            (''Can'' @ [CHR 0x27]
             @ ''t convert Python sequence with out-of-range integer to Tensor.'')), st)"
  using assms by (simp add: init_def convert_nonref_to_tensor_def)

text \<open>
  C10. An object constructed without validation and with the statically known
  \<^verbatim>\<open>num_steps = 0\<close> exists, and when its base distribution materializes,
  \<^verbatim>\<open>_sample_n(n, seed)\<close> makes no recurrence step: it returns the base draw
  \<^verbatim>\<open>distribution0.sample(n, seed=seed)\<close> itself, and \<^verbatim>\<open>distribution_fn\<close> is called exactly
  once in the sampling call, on \<^verbatim>\<open>sample0\<close>.
\<close>

theorem sample_n_zero_steps:
  assumes "numpy t = Scalar 0" and "static_known t"
    and "self = \<lparr>distribution_fn = f, sample0 = s0, num_steps = Some t,
         self_dtype = dtype (fst (f s0 (world st0))),
         self_reparameterization_type = reparameterization_type (fst (f s0 (world st0))),
         validate_args = False, allow_nan_stats = allow_nan\<rparr>"
    and "get_distribution0 self st = (Inr distribution0, st1)"
    and "seed = SeedStream user_seed ''Autoregressive''"
  shows "fst (init f s0 (Some t) False allow_nan st0) = Inr self
     \<and> sample_n SeedStream self n user_seed st =
         (Inr (fst (sample distribution0 [n] seed (world st1))),
          \<lparr>world = snd (sample distribution0 [n] seed (world st1)),
           trace = trace st @ [Invoked s0,
             Sampled [n] seed (fst (sample distribution0 [n] seed (world st1)))]\<rparr>)
     \<and> invocations (drop (length (trace st))
          (trace (snd (sample_n SeedStream self n user_seed st)))) = [s0]"
proof -
  have v: "convert_nonref_to_tensor (Some t) = Inr (Some t)"
    by (rule convert_scalar [OF assms(1)]) simp_all
  have c: "fst (init f s0 (Some t) False allow_nan st0) = Inr self"
    unfolding assms(3)
    by (simp add: init_eq [OF v] Distribution_init_def parameter_control_dependencies_def)
  have r: "resolve_steps self distribution0 = StaticCount (Scalar 0)
      \<or> resolve_steps self distribution0 = DynamicCount (Scalar 0) \<and> (0::int) \<le> 0"
    using assms(1,2) unfolding assms(3)
    by (simp add: resolve_steps_def get_static_value_def)
  have s0: "sample0 self = s0" unfolding assms(3) by simp
  have t1: "trace st1 = trace st @ [Invoked s0]"
    using get_distribution0_Inr [OF assms(4)] s0 by simp
  have res: "sample_n SeedStream self n user_seed st =
         (Inr (fst (sample distribution0 [n] seed (world st1))),
          \<lparr>world = snd (sample distribution0 [n] seed (world st1)),
           trace = trace st @ [Invoked s0,
             Sampled [n] seed (fst (sample distribution0 [n] seed (world st1)))]\<rparr>)"
    by (simp add: sample_n_scalar [OF assms(4) r] call_sample_eq t1 assms(5))
  show ?thesis by (simp add: c res)
qed

theorem sample_n_zero_steps_witness:
  "fst (init example_fn (Some 1) (Some (static_steps 0)) False True
          \<lparr>world = 0, trace = []\<rparr>) = Inr (example_self example_fn (Some (static_steps 0)))
   \<and> sample_n example_SeedStream (example_self example_fn (Some (static_steps 0))) 3 (Some 4)
        \<lparr>world = 5, trace = []\<rparr> =
       (Inr 20, \<lparr>world = 6, trace = [Invoked (Some 1), Sampled [3] (Some 18) 20]\<rparr>)
   \<and> invocations (drop (length (trace \<lparr>world = 5::nat, trace = [] :: int event list\<rparr>))
        (trace (snd (sample_n example_SeedStream
           (example_self example_fn (Some (static_steps 0))) 3 (Some 4)
           \<lparr>world = 5, trace = []\<rparr>)))) = [Some 1]"
proof -
  let ?self = "example_self example_fn (Some (static_steps 0))"
  let ?d0 = "example_distribution (DType ''float32'') (Some [Some 2]) 2"
  have h1: "numpy (static_steps 0) = Scalar 0" by (simp add: static_steps_def)
  have h2: "static_known (static_steps 0)" by (simp add: static_steps_def)
  have h3: "?self =
      \<lparr>distribution_fn = example_fn, sample0 = Some 1, num_steps = Some (static_steps 0),
       self_dtype = dtype (fst (example_fn (Some 1) (world \<lparr>world = 0::nat, trace = [] :: int event list\<rparr>))),
       self_reparameterization_type = reparameterization_type
          (fst (example_fn (Some 1) (world \<lparr>world = 0::nat, trace = [] :: int event list\<rparr>))),
       validate_args = False, allow_nan_stats = True\<rparr>"
    by (simp add: example_self_def example_fn_def example_distribution_def)
  have h4: "get_distribution0 ?self \<lparr>world = 5, trace = []\<rparr> =
      (Inr ?d0, \<lparr>world = 5, trace = [Invoked (Some 1)]\<rparr>)"
    by (simp add: get_distribution0_def invoke_def example_self_def example_fn_def
        example_distribution_def)
  have h5: "Some 18 = example_SeedStream (Some 4) ''Autoregressive''"
    by (simp add: example_SeedStream_def)
  show ?thesis
    using sample_n_zero_steps
      [where SeedStream = example_SeedStream and user_seed = "Some 4" and n = 3,
        OF h1 h2 h3 h4 h5]
    by (simp add: example_distribution_def)
qed

section \<open>Sampling without a given step count\<close>

text \<open>
  C5, as the spec states it, fails where the count is computed at execution: the count is
  \<^verbatim>\<open>tf.reduce_prod\<close> of the int32 event shape tensor, which wraps around. For an event of
  \<open>65536 \<times> 65536\<close> elements the product of the dimensions is \<open>4294967296\<close>, the
  computed count is \<open>0\<close>, and \<^verbatim>\<open>_sample_n\<close> makes no recurrence step.
\<close>

theorem sample_n_wide_event_no_steps:
  "num_elements (event_shape (fst (wide_fn [65536, 65536] (Some 1) 0))) = None
   \<and> prod_list (event_shape_tensor (fst (wide_fn [65536, 65536] (Some 1) 0))) = 4294967296
   \<and> sample_n example_SeedStream (example_self (wide_fn [65536, 65536]) None) 3 (Some 4)
        \<lparr>world = 0, trace = []\<rparr> =
       (Inr 20, \<lparr>world = 1, trace = [Invoked (Some 1), Sampled [3] (Some 18) 20]\<rparr>)"
  by (simp add: sample_n_def get_distribution0_def invoke_def call_sample_def
      resolve_steps_def num_elements_def reduce_prod_def int32_def example_self_def
      wide_fn_def example_distribution_def example_SeedStream_def)

text \<open>
  C5, amended. Let \<^verbatim>\<open>num_steps\<close> be \<^verbatim>\<open>None\<close>, let the base distribution materialize, and let
  \<open>base\<close> be the base draw. If the event shape of the base distribution has the statically
  known element count \<open>m\<close>, the step count is static and \<^verbatim>\<open>_sample_n\<close> makes exactly \<open>m\<close>
  recurrence steps, each on the draw of the step before. If the element count is not
  statically known, the step count is the tensor \<open>p\<close>, the product of the dimensions of
  \<^verbatim>\<open>event_shape_tensor()\<close> in signed 32-bit arithmetic (the product itself when that is
  below \<open>2\<^sup>3\<^sup>1\<close>); when \<open>p\<close> is not negative, \<^verbatim>\<open>_sample_n\<close> folds over
  \<^verbatim>\<open>tf.range(0, p)\<close>, exactly \<open>p\<close> recurrence steps, and when \<open>p\<close> is negative
  \<^verbatim>\<open>tf.range\<close> raises after the base draw.
\<close>

theorem sample_n_default_steps:
  assumes "num_steps self = None"
    and "get_distribution0 self st = (Inr distribution0, st1)"
    and "seed = SeedStream user_seed ''Autoregressive''"
    and "sample distribution0 [n] seed (world st1) = (base, w)"
    and "p = reduce_prod (event_shape_tensor distribution0)"
  shows "(\<forall>m. num_elements (event_shape distribution0) = Some m \<longrightarrow>
            resolve_steps self distribution0 = StaticCount (Scalar (int m))
          \<and> length (recurrence_draws (distribution_fn self) seed m base w) = m
          \<and> sample_n SeedStream self n user_seed st =
              (Inr (fst (last ((base, w)
                 # recurrence_draws (distribution_fn self) seed m base w))),
               \<lparr>world = snd (last ((base, w)
                 # recurrence_draws (distribution_fn self) seed m base w)),
                trace = trace st @ Invoked (sample0 self) # Sampled [n] seed base
                  # recurrence_events seed
                      (base # map fst (recurrence_draws (distribution_fn self) seed m
                         base w))\<rparr>))
     \<and> (num_elements (event_shape distribution0) = None \<longrightarrow>
            resolve_steps self distribution0 = DynamicCount (Scalar p)
          \<and> p = (prod_list (event_shape_tensor distribution0) + 2147483648)
                  mod 4294967296 - 2147483648
          \<and> (0 \<le> prod_list (event_shape_tensor distribution0)
               \<and> prod_list (event_shape_tensor distribution0) < 2147483648
               \<longrightarrow> p = prod_list (event_shape_tensor distribution0))
          \<and> (0 \<le> p \<longrightarrow>
                length (recurrence_draws (distribution_fn self) seed (nat p) base w) = nat p
              \<and> sample_n SeedStream self n user_seed st =
                  (Inr (fst (last ((base, w)
                     # recurrence_draws (distribution_fn self) seed (nat p) base w))),
                   \<lparr>world = snd (last ((base, w)
                     # recurrence_draws (distribution_fn self) seed (nat p) base w)),
                    trace = trace st @ Invoked (sample0 self) # Sampled [n] seed base
                      # recurrence_events seed
                          (base # map fst (recurrence_draws (distribution_fn self) seed
                             (nat p) base w))\<rparr>))
          \<and> (p < 0 \<longrightarrow>
                sample_n SeedStream self n user_seed st =
                  (Inl (InvalidArgument ''Requires start <= limit when delta > 0''),
                   \<lparr>world = w,
                    trace = trace st @ [Invoked (sample0 self), Sampled [n] seed base]\<rparr>)))"
proof -
  let ?f = "distribution_fn self"
  let ?dims = "event_shape_tensor distribution0"
  note b = assms(4) [unfolded assms(3)]
  have t1: "trace st1 = trace st @ [Invoked (sample0 self)]"
    using get_distribution0_Inr [OF assms(2)] by simp
  have static: "resolve_steps self distribution0 = StaticCount (Scalar (int m))
          \<and> length (recurrence_draws ?f seed m base w) = m
          \<and> sample_n SeedStream self n user_seed st =
              (Inr (fst (last ((base, w) # recurrence_draws ?f seed m base w))),
               \<lparr>world = snd (last ((base, w) # recurrence_draws ?f seed m base w)),
                trace = trace st @ Invoked (sample0 self) # Sampled [n] seed base
                  # recurrence_events seed
                      (base # map fst (recurrence_draws ?f seed m base w))\<rparr>)"
    if m: "num_elements (event_shape distribution0) = Some m" for m
  proof -
    have r: "resolve_steps self distribution0 = StaticCount (Scalar (int m))"
      by (simp add: resolve_steps_def assms(1) m)
    then have r': "resolve_steps self distribution0 = StaticCount (Scalar (int m))
        \<or> resolve_steps self distribution0 = DynamicCount (Scalar (int m)) \<and> 0 \<le> int m"
      by simp
    from sample_n_scalar_draws
      [where SeedStream = SeedStream and seed = user_seed, OF assms(2) r' b]
    show ?thesis using r unfolding assms(3) by (simp add: length_recurrence_draws)
  qed
  have wrap: "p = (prod_list ?dims + 2147483648) mod 4294967296 - 2147483648"
    unfolding assms(5) by (simp add: reduce_prod_def int32_def)
  have small: "p = prod_list ?dims"
    if "0 \<le> prod_list ?dims \<and> prod_list ?dims < 2147483648"
    using that unfolding wrap by simp
  have dynamic: "resolve_steps self distribution0 = DynamicCount (Scalar p)"
    if u: "num_elements (event_shape distribution0) = None"
    by (simp add: resolve_steps_def assms(1,5) u)
  have run: "length (recurrence_draws ?f seed (nat p) base w) = nat p
              \<and> sample_n SeedStream self n user_seed st =
                  (Inr (fst (last ((base, w) # recurrence_draws ?f seed (nat p) base w))),
                   \<lparr>world = snd (last ((base, w)
                     # recurrence_draws ?f seed (nat p) base w)),
                    trace = trace st @ Invoked (sample0 self) # Sampled [n] seed base
                      # recurrence_events seed
                          (base # map fst (recurrence_draws ?f seed (nat p) base w))\<rparr>)"
    if u: "num_elements (event_shape distribution0) = None" and nn: "0 \<le> p"
  proof -
    have r': "resolve_steps self distribution0 = StaticCount (Scalar p)
        \<or> resolve_steps self distribution0 = DynamicCount (Scalar p) \<and> 0 \<le> p"
      using dynamic [OF u] nn by simp
    from sample_n_scalar_draws
      [where SeedStream = SeedStream and seed = user_seed, OF assms(2) r' b]
    show ?thesis unfolding assms(3) by (simp add: length_recurrence_draws)
  qed
  have raise: "sample_n SeedStream self n user_seed st =
                  (Inl (InvalidArgument ''Requires start <= limit when delta > 0''),
                   \<lparr>world = w,
                    trace = trace st @ [Invoked (sample0 self), Sampled [n] seed base]\<rparr>)"
    if u: "num_elements (event_shape distribution0) = None" and neg: "p < 0"
    using sample_n_negative
      [where SeedStream = SeedStream and seed = user_seed, OF assms(2) dynamic [OF u] neg]
    by (simp add: call_sample_def b t1 assms(3))
  show ?thesis
    using static dynamic wrap small run raise by (intro conjI allI impI) simp_all
qed

theorem sample_n_default_steps_witness:
  "sample_n example_SeedStream (example_self example_fn None) 3 (Some 4)
       \<lparr>world = 0, trace = []\<rparr> =
     (Inr 134,
      \<lparr>world = 3,
       trace = [Invoked (Some 1), Sampled [3] (Some 18) 20, Invoked (Some 20),
                Sampled [] (Some 18) 58, Invoked (Some 58), Sampled [] (Some 18) 134]\<rparr>)
   \<and> resolve_steps (example_self example_fn None)
        (example_distribution (DType ''float32'') (Some [Some 2]) 2) =
       StaticCount (Scalar (int 2))
   \<and> sample_n example_SeedStream (example_self unknown_shape_fn None) 3 (Some 4)
       \<lparr>world = 0, trace = []\<rparr> =
     (Inr 286,
      \<lparr>world = 4,
       trace = [Invoked (Some 1), Sampled [3] (Some 18) 20, Invoked (Some 20),
                Sampled [] (Some 18) 58, Invoked (Some 58), Sampled [] (Some 18) 134,
                Invoked (Some 134), Sampled [] (Some 18) 286]\<rparr>)
   \<and> resolve_steps (example_self unknown_shape_fn None)
        ((example_distribution (DType ''float32'') (Some [None, Some 1]) 2)
           \<lparr>event_shape_tensor := [3, 1]\<rparr>) =
       DynamicCount (Scalar 3)
   \<and> sample_n example_SeedStream (example_self (wide_fn [65536, 32768]) None) 3 (Some 4)
       \<lparr>world = 0, trace = []\<rparr> =
     (Inl (InvalidArgument ''Requires start <= limit when delta > 0''),
      \<lparr>world = 1, trace = [Invoked (Some 1), Sampled [3] (Some 18) 20]\<rparr>)
   \<and> resolve_steps (example_self (wide_fn [65536, 32768]) None)
        ((example_distribution (DType ''float32'') (Some [None, None]) 2)
           \<lparr>event_shape_tensor := [65536, 32768]\<rparr>) =
       DynamicCount (Scalar (- 2147483648))"
proof -
  let ?st = "\<lparr>world = 0::nat, trace = [] :: int event list\<rparr>"
  let ?st1 = "\<lparr>world = 0::nat, trace = [Invoked (Some (1::int))]\<rparr>"
  let ?d = "example_distribution (DType ''float32'') (Some [Some 2]) 2"
  let ?u = "(example_distribution (DType ''float32'') (Some [None, Some 1]) 2)
      \<lparr>event_shape_tensor := [3, 1]\<rparr>"
  let ?v = "(example_distribution (DType ''float32'') (Some [None, None]) 2)
      \<lparr>event_shape_tensor := [65536, 32768]\<rparr>"
  have seed: "Some 18 = example_SeedStream (Some 4) ''Autoregressive''"
    by (simp add: example_SeedStream_def)
  have a1: "num_steps (example_self example_fn None) = None"
    by (simp add: example_self_def)
  have a2: "get_distribution0 (example_self example_fn None) ?st = (Inr ?d, ?st1)"
    by (simp add: get_distribution0_def invoke_def example_self_def example_fn_def
        example_distribution_def)
  have a4: "sample ?d [3] (Some 18) (world ?st1) = (20, 1)"
    by (simp add: example_distribution_def)
  have a5: "2 = reduce_prod (event_shape_tensor ?d)"
    by (simp add: reduce_prod_def int32_def example_distribution_def)
  have a6: "num_elements (event_shape ?d) = Some 2"
    by (simp add: num_elements_def example_distribution_def)
  have a7: "recurrence_draws example_fn (Some 18) 2 20 (Suc 0) = [(58, 2), (134, 3)]"
    by (simp add: numeral_2_eq_2 example_fn_def example_distribution_def)
  have b1: "num_steps (example_self unknown_shape_fn None) = None"
    by (simp add: example_self_def)
  have b2: "get_distribution0 (example_self unknown_shape_fn None) ?st = (Inr ?u, ?st1)"
    by (simp add: get_distribution0_def invoke_def example_self_def unknown_shape_fn_def
        example_distribution_def)
  have b4: "sample ?u [3] (Some 18) (world ?st1) = (20, 1)"
    by (simp add: example_distribution_def)
  have b5: "3 = reduce_prod (event_shape_tensor ?u)"
    by (simp add: reduce_prod_def int32_def)
  have b6: "num_elements (event_shape ?u) = None"
    by (simp add: num_elements_def example_distribution_def)
  have b7: "recurrence_draws unknown_shape_fn (Some 18) 3 20 (Suc 0) =
      [(58, 2), (134, 3), (286, 4)]"
    by (simp add: numeral_3_eq_3 unknown_shape_fn_def example_distribution_def)
  have c1: "num_steps (example_self (wide_fn [65536, 32768]) None) = None"
    by (simp add: example_self_def)
  have c2: "get_distribution0 (example_self (wide_fn [65536, 32768]) None) ?st =
      (Inr ?v, ?st1)"
    by (simp add: get_distribution0_def invoke_def example_self_def wide_fn_def
        example_distribution_def)
  have c4: "sample ?v [3] (Some 18) (world ?st1) = (20, 1)"
    by (simp add: example_distribution_def)
  have c5: "- 2147483648 = reduce_prod (event_shape_tensor ?v)"
    by (simp add: reduce_prod_def int32_def)
  have c6: "num_elements (event_shape ?v) = None"
    by (simp add: num_elements_def example_distribution_def)
  note A = sample_n_default_steps
    [where SeedStream = example_SeedStream and user_seed = "Some 4",
      OF a1 a2 seed a4 a5, THEN conjunct1, rule_format, OF a6]
  note B = sample_n_default_steps
    [where SeedStream = example_SeedStream and user_seed = "Some 4",
      OF b1 b2 seed b4 b5, THEN conjunct2, rule_format, OF b6]
  note C = sample_n_default_steps
    [where SeedStream = example_SeedStream and user_seed = "Some 4",
      OF c1 c2 seed c4 c5, THEN conjunct2, rule_format, OF c6]
  have ra: "resolve_steps (example_self example_fn None) ?d = StaticCount (Scalar (int 2))"
    using A by blast
  have sa: "sample_n example_SeedStream (example_self example_fn None) 3 (Some 4) ?st =
     (Inr 134,
      \<lparr>world = 3,
       trace = [Invoked (Some 1), Sampled [3] (Some 18) 20, Invoked (Some 20),
                Sampled [] (Some 18) 58, Invoked (Some 58), Sampled [] (Some 18) 134]\<rparr>)"
    using A [THEN conjunct2, THEN conjunct2] by (simp add: example_self_def a7)
  have rb: "resolve_steps (example_self unknown_shape_fn None) ?u = DynamicCount (Scalar 3)"
    using B by blast
  have sb: "sample_n example_SeedStream (example_self unknown_shape_fn None) 3 (Some 4) ?st =
     (Inr 286,
      \<lparr>world = 4,
       trace = [Invoked (Some 1), Sampled [3] (Some 18) 20, Invoked (Some 20),
                Sampled [] (Some 18) 58, Invoked (Some 58), Sampled [] (Some 18) 134,
                Invoked (Some 134), Sampled [] (Some 18) 286]\<rparr>)"
    using B [THEN conjunct2, THEN conjunct2, THEN conjunct2, THEN conjunct1]
    by (simp add: example_self_def b7)
  have rc: "resolve_steps (example_self (wide_fn [65536, 32768]) None) ?v =
      DynamicCount (Scalar (- 2147483648))"
    using C by blast
  have sc: "sample_n example_SeedStream (example_self (wide_fn [65536, 32768]) None) 3
      (Some 4) ?st =
     (Inl (InvalidArgument ''Requires start <= limit when delta > 0''),
      \<lparr>world = 1, trace = [Invoked (Some 1), Sampled [3] (Some 18) 20]\<rparr>)"
    using C [THEN conjunct2, THEN conjunct2, THEN conjunct2, THEN conjunct2]
    by (simp add: example_self_def)
  show ?thesis using ra sa rb sb rc sc by (intro conjI)
qed

section \<open>The seed of the draws\<close>

text \<open>
  C6. In one call \<^verbatim>\<open>_sample_n(n, seed)\<close> whose base distribution materializes and whose
  step count is a scalar \<open>k\<close> (static or dynamic), the seed handed on is the one value
  \<^verbatim>\<open>SeedStream(seed, salt='Autoregressive')()\<close>: the trace grows by the call of
  \<^verbatim>\<open>distribution_fn\<close> on \<^verbatim>\<open>sample0\<close> and the base draw made with that seed, and all the
  \<open>k + 1\<close> draws of the call, the base draw and every recurrence step, carry that same
  seed.
\<close>

theorem sample_n_single_seed:
  assumes "seed = SeedStream user_seed ''Autoregressive''"
    and "get_distribution0 self st = (Inr distribution0, st1)"
    and "resolve_steps self distribution0 = StaticCount (Scalar k)
         \<or> resolve_steps self distribution0 = DynamicCount (Scalar k)"
    and "new = drop (length (trace st)) (trace (snd (sample_n SeedStream self n user_seed st)))"
  shows "trace (snd (sample_n SeedStream self n user_seed st)) = trace st @ new
     \<and> take 2 new = [Invoked (sample0 self),
          Sampled [n] seed (fst (sample distribution0 [n] seed (world st1)))]
     \<and> sample_seeds new = replicate (nat k + 1) seed"
proof -
  let ?base = "fst (sample distribution0 [n] seed (world st1))"
  have t1: "trace st1 = trace st @ [Invoked (sample0 self)]"
    using get_distribution0_Inr [OF assms(2)] by simp
  consider
      (run) "resolve_steps self distribution0 = StaticCount (Scalar k)
        \<or> resolve_steps self distribution0 = DynamicCount (Scalar k) \<and> 0 \<le> k"
    | (neg) "resolve_steps self distribution0 = DynamicCount (Scalar k)" "k < 0"
    using assms(3) by fastforce
  then show ?thesis
  proof cases
    case run
    from sample_n_scalar_trace [OF assms(2) run, of SeedStream n user_seed]
    obtain outs where outs: "length outs = nat k"
      and t: "trace (snd (sample_n SeedStream self n user_seed st)) =
        trace st @ Invoked (sample0 self) # Sampled [n] seed ?base
          # recurrence_events seed (?base # outs)"
      unfolding assms(1) by blast
    have n: "new = Invoked (sample0 self) # Sampled [n] seed ?base
          # recurrence_events seed (?base # outs)"
      unfolding assms(4) t by simp
    have "sample_seeds new = replicate (nat k + 1) seed"
      unfolding n by (simp add: sample_seeds_recurrence_events outs)
    moreover have "take 2 new = [Invoked (sample0 self), Sampled [n] seed ?base]"
      unfolding n by simp
    ultimately show ?thesis using t n by simp
  next
    case neg
    have t: "trace (snd (sample_n SeedStream self n user_seed st)) =
        trace st @ [Invoked (sample0 self), Sampled [n] seed ?base]"
      by (simp add: sample_n_negative [OF assms(2) neg] call_sample_eq t1 assms(1))
    have n: "new = [Invoked (sample0 self), Sampled [n] seed ?base]"
      unfolding assms(4) t by simp
    show ?thesis using neg(2) by (simp add: t n)
  qed
qed

theorem sample_n_single_seed_witness:
  "trace (snd (sample_n example_SeedStream (example_self unknown_shape_fn None) 3 (Some 4)
       \<lparr>world = 0, trace = []\<rparr>)) =
     trace \<lparr>world = 0::nat, trace = [] :: int event list\<rparr>
       @ [Invoked (Some 1), Sampled [3] (Some 18) 20, Invoked (Some 20),
          Sampled [] (Some 18) 58, Invoked (Some 58), Sampled [] (Some 18) 134,
          Invoked (Some 134), Sampled [] (Some 18) 286]
   \<and> take 2 [Invoked (Some 1), Sampled [3] (Some 18) 20, Invoked (Some 20),
          Sampled [] (Some 18) 58, Invoked (Some 58), Sampled [] (Some 18) 134,
          Invoked (Some 134), Sampled [] (Some 18) (286::int)] =
       [Invoked (sample0 (example_self unknown_shape_fn None)),
        Sampled [3] (Some 18)
          (fst (sample ((example_distribution (DType ''float32'') (Some [None, Some 1]) 2)
                  \<lparr>event_shape_tensor := [3, 1]\<rparr>) [3] (Some 18)
                (world \<lparr>world = 0::nat, trace = [Invoked (Some (1::int))]\<rparr>)))]
   \<and> sample_seeds [Invoked (Some 1), Sampled [3] (Some 18) 20, Invoked (Some 20),
          Sampled [] (Some 18) 58, Invoked (Some 58), Sampled [] (Some 18) 134,
          Invoked (Some 134), Sampled [] (Some 18) (286::int)] =
       replicate (nat 3 + 1) (Some 18)"
proof -
  let ?self = "example_self unknown_shape_fn None"
  let ?st = "\<lparr>world = 0::nat, trace = [] :: int event list\<rparr>"
  let ?u = "(example_distribution (DType ''float32'') (Some [None, Some 1]) 2)
      \<lparr>event_shape_tensor := [3, 1]\<rparr>"
  have h1: "Some 18 = example_SeedStream (Some 4) ''Autoregressive''"
    by (simp add: example_SeedStream_def)
  have h2: "get_distribution0 ?self ?st =
      (Inr ?u, \<lparr>world = 0, trace = [Invoked (Some 1)]\<rparr>)"
    by (simp add: get_distribution0_def invoke_def example_self_def unknown_shape_fn_def
        example_distribution_def)
  have h3: "resolve_steps ?self ?u = StaticCount (Scalar 3)
      \<or> resolve_steps ?self ?u = DynamicCount (Scalar 3)"
    by (simp add: resolve_steps_def example_self_def num_elements_def reduce_prod_def
        int32_def example_distribution_def)
  have h3': "resolve_steps ?self ?u = StaticCount (Scalar 3)
      \<or> resolve_steps ?self ?u = DynamicCount (Scalar 3) \<and> (0::int) \<le> 3"
    using h3 by simp
  have v: "sample_n example_SeedStream ?self 3 (Some 4) ?st =
      (Inr 286, \<lparr>world = 4, trace = [Invoked (Some 1), Sampled [3] (Some 18) 20,
          Invoked (Some 20), Sampled [] (Some 18) 58, Invoked (Some 58),
          Sampled [] (Some 18) 134, Invoked (Some 134), Sampled [] (Some 18) 286]\<rparr>)"
    unfolding sample_n_scalar [OF h2 h3']
    by (simp add: call_sample_def recurrence_step_def invoke_def
        example_self_def unknown_shape_fn_def example_distribution_def
        example_SeedStream_def upt_conv_Cons)
  have h4: "[Invoked (Some 1), Sampled [3] (Some 18) 20, Invoked (Some 20),
          Sampled [] (Some 18) 58, Invoked (Some 58), Sampled [] (Some 18) 134,
          Invoked (Some 134), Sampled [] (Some 18) 286] =
      drop (length (trace ?st))
        (trace (snd (sample_n example_SeedStream ?self 3 (Some 4) ?st)))"
    by (simp add: v)
  show ?thesis
    by (rule sample_n_single_seed
        [where SeedStream = example_SeedStream and user_seed = "Some 4", OF h1 h2 h3 h4])
qed

section \<open>Determinism under an explicit seed\<close>

text \<open>
  Two runs start in outside states that a relation \<open>R\<close> relates. \<^verbatim>\<open>distribution_fn\<close>
  behaves the same in both when, from related states, it returns the same distribution and
  leaves related states; a draw with the derived seed behaves the same when, from related
  states, it returns the same tensor and leaves related states.
\<close>

lemma recurrence_step_eq:
  "recurrence_step self seed s st =
     (fst (sample (fst (distribution_fn self (Some s) (world st))) [] seed
             (snd (distribution_fn self (Some s) (world st)))),
      \<lparr>world = snd (sample (fst (distribution_fn self (Some s) (world st))) [] seed
                 (snd (distribution_fn self (Some s) (world st)))),
       trace = trace st @ [Invoked (Some s),
         Sampled [] seed
           (fst (sample (fst (distribution_fn self (Some s) (world st))) [] seed
              (snd (distribution_fn self (Some s) (world st)))))]\<rparr>)"
  by (simp add: recurrence_step_def invoke_eq call_sample_eq)

lemma recurrence_step_related:
  assumes fn: "\<forall>arg w w'. R w w' \<longrightarrow>
        fst (distribution_fn self arg w) = fst (distribution_fn self arg w')
        \<and> R (snd (distribution_fn self arg w)) (snd (distribution_fn self arg w'))"
    and draw: "\<forall>arg v shape w w'. R w w' \<longrightarrow>
        fst (sample (fst (distribution_fn self arg v)) shape seed w) =
          fst (sample (fst (distribution_fn self arg v)) shape seed w')
        \<and> R (snd (sample (fst (distribution_fn self arg v)) shape seed w))
             (snd (sample (fst (distribution_fn self arg v)) shape seed w'))"
    and rel: "R (world st) (world st')"
  shows "fst (recurrence_step self seed s st) = fst (recurrence_step self seed s st')
     \<and> R (world (snd (recurrence_step self seed s st)))
          (world (snd (recurrence_step self seed s st')))"
proof -
  let ?f = "distribution_fn self"
  have d: "fst (?f (Some s) (world st)) = fst (?f (Some s) (world st'))"
    and w: "R (snd (?f (Some s) (world st))) (snd (?f (Some s) (world st')))"
    using fn rel by blast+
  from draw w have
    "fst (sample (fst (?f (Some s) (world st))) [] seed (snd (?f (Some s) (world st)))) =
       fst (sample (fst (?f (Some s) (world st))) [] seed (snd (?f (Some s) (world st'))))
     \<and> R (snd (sample (fst (?f (Some s) (world st))) [] seed (snd (?f (Some s) (world st)))))
          (snd (sample (fst (?f (Some s) (world st))) [] seed (snd (?f (Some s) (world st')))))"
    by blast
  then show ?thesis
    unfolding recurrence_step_eq using d by simp
qed

lemma for_loop_related:
  assumes fn: "\<forall>arg w w'. R w w' \<longrightarrow>
        fst (distribution_fn self arg w) = fst (distribution_fn self arg w')
        \<and> R (snd (distribution_fn self arg w)) (snd (distribution_fn self arg w'))"
    and draw: "\<forall>arg v shape w w'. R w w' \<longrightarrow>
        fst (sample (fst (distribution_fn self arg v)) shape seed w) =
          fst (sample (fst (distribution_fn self arg v)) shape seed w')
        \<and> R (snd (sample (fst (distribution_fn self arg v)) shape seed w))
             (snd (sample (fst (distribution_fn self arg v)) shape seed w'))"
  shows "R (world st) (world st') \<Longrightarrow>
     fst (for_loop idx (recurrence_step self seed) s st) =
       fst (for_loop idx (recurrence_step self seed) s st')"
proof (induction idx arbitrary: s st st')
  case Nil
  then show ?case by simp
next
  case (Cons i idx)
  obtain x st2 where a: "recurrence_step self seed s st = (x, st2)"
    by (cases "recurrence_step self seed s st")
  obtain x' st2' where b: "recurrence_step self seed s st' = (x', st2')"
    by (cases "recurrence_step self seed s st'")
  from recurrence_step_related [OF fn draw Cons.prems, of s]
  have "x = x'" and "R (world st2) (world st2')"
    by (simp_all add: a b)
  with Cons.IH [of st2 st2' x] show ?case
    by (simp add: a b)
qed

text \<open>
  C7, as the spec states it, fails: that \<^verbatim>\<open>distribution_fn\<close> behaves the same in both
  runs is not enough. \<open>stateful_fn\<close> returns the same distribution whatever the outside
  state, but its draws, given a seed, still depend on the count of draws made. Two calls
  of \<^verbatim>\<open>_sample_n\<close> with the same seed and the same \<open>n\<close>, one after the other, return
  different tensors.
\<close>

lemma stateful_fn_same_behaviour:
  "fst (stateful_fn arg w) = fst (stateful_fn arg w')"
  by (simp add: stateful_fn_def)

theorem sample_n_same_seed_differs:
  "fst (sample_n example_SeedStream (example_self stateful_fn (Some (static_steps 2))) 3
          (Some 4) \<lparr>world = 0, trace = []\<rparr>) = Inr 138
   \<and> fst (sample_n example_SeedStream (example_self stateful_fn (Some (static_steps 2))) 3
          (Some 4)
          (snd (sample_n example_SeedStream
             (example_self stateful_fn (Some (static_steps 2))) 3 (Some 4)
             \<lparr>world = 0, trace = []\<rparr>))) = Inr 159"
proof -
  let ?self = "example_self stateful_fn (Some (static_steps 2))"
  let ?d = "fst (stateful_fn (Some 1) 0)"
  have r: "resolve_steps ?self ?d = StaticCount (Scalar 2)
      \<or> resolve_steps ?self ?d = DynamicCount (Scalar 2) \<and> (0::int) \<le> 2"
    by (simp add: resolve_steps_def get_static_value_def example_self_def static_steps_def)
  have g: "get_distribution0 ?self \<lparr>world = v, trace = es\<rparr> =
      (Inr ?d, \<lparr>world = v, trace = es @ [Invoked (Some 1)]\<rparr>)" for v es
    by (simp add: get_distribution0_def invoke_def example_self_def stateful_fn_def
        example_distribution_def)
  have run: "sample_n example_SeedStream ?self 3 (Some 4) \<lparr>world = v, trace = es\<rparr> =
      (Inr (138 + 7 * int v),
       \<lparr>world = v + 3,
        trace = es @ [Invoked (Some 1), Sampled [3] (Some 18) (20 + int v),
          Invoked (Some (20 + int v)), Sampled [] (Some 18) (59 + 3 * int v),
          Invoked (Some (59 + 3 * int v)), Sampled [] (Some 18) (138 + 7 * int v)]\<rparr>)"
    for v es
    unfolding sample_n_scalar [OF g r]
    by (simp add: call_sample_def recurrence_step_def invoke_def example_self_def
        stateful_fn_def example_distribution_def example_SeedStream_def upt_conv_Cons)
  show ?thesis by (simp add: run)
qed

text \<open>
  C7, amended. Two calls \<^verbatim>\<open>_sample_n(n, seed)\<close> with the same explicit seed and the same
  \<open>n\<close>, made in two states (outside states and traces may differ) in which
  \<^verbatim>\<open>distribution_fn\<close> behaves the same and every draw with the derived seed behaves the
  same, return the same result: the same tensor, or the same error.
\<close>

theorem sample_n_deterministic:
  assumes "seed = SeedStream (Some s) ''Autoregressive''"
    and fn: "\<forall>arg w w'. R w w' \<longrightarrow>
        fst (distribution_fn self arg w) = fst (distribution_fn self arg w')
        \<and> R (snd (distribution_fn self arg w)) (snd (distribution_fn self arg w'))"
    and draw: "\<forall>arg v shape w w'. R w w' \<longrightarrow>
        fst (sample (fst (distribution_fn self arg v)) shape seed w) =
          fst (sample (fst (distribution_fn self arg v)) shape seed w')
        \<and> R (snd (sample (fst (distribution_fn self arg v)) shape seed w))
             (snd (sample (fst (distribution_fn self arg v)) shape seed w'))"
    and rel: "R (world st) (world st')"
  shows "fst (sample_n SeedStream self n (Some s) st) =
     fst (sample_n SeedStream self n (Some s) st')"
proof -
  let ?f = "distribution_fn self"
  let ?d = "fst (?f (sample0 self) (world st))"
  let ?w = "snd (?f (sample0 self) (world st))"
  let ?w' = "snd (?f (sample0 self) (world st'))"
  have d: "fst (?f (sample0 self) (world st')) = ?d" and w: "R ?w ?w'"
    using fn rel by simp_all
  have g: "fst (get_distribution0 self st') = fst (get_distribution0 self st)"
    by (simp add: get_distribution0_eq invoke_eq d)
  obtain r st1 where g1: "get_distribution0 self st = (r, st1)"
    by (cases "get_distribution0 self st")
  obtain r' st1' where g1': "get_distribution0 self st' = (r', st1')"
    by (cases "get_distribution0 self st'")
  have rr: "r' = r" using g g1 g1' by simp
  show ?thesis
  proof (cases r)
    case (Inl e)
    then show ?thesis by (simp add: sample_n_def g1 g1' rr)
  next
    case (Inr d0)
    note g1 = g1 [unfolded Inr] and g1' = g1' [unfolded rr Inr]
    have d0: "d0 = ?d" using get_distribution0_Inr [OF g1] by simp
    have w1: "world st1 = ?w" "world st1' = ?w'"
      using get_distribution0_state [of self st] get_distribution0_state [of self st']
      by (simp_all add: g1 g1')
    from draw w have base:
      "fst (sample ?d [n] seed ?w) = fst (sample ?d [n] seed ?w')"
      and w2: "R (snd (sample ?d [n] seed ?w)) (snd (sample ?d [n] seed ?w'))"
      by blast+
    obtain b st2 where c: "call_sample d0 [n] seed st1 = (b, st2)"
      by (cases "call_sample d0 [n] seed st1")
    obtain b' st2' where c': "call_sample d0 [n] seed st1' = (b', st2')"
      by (cases "call_sample d0 [n] seed st1'")
    have bb: "b' = b" and r2: "R (world st2) (world st2')"
      using c c' base w2 by (auto simp add: call_sample_eq d0 w1)
    have loop: "fst (for_loop idx (recurrence_step self seed) b st2) =
        fst (for_loop idx (recurrence_step self seed) b st2')" for idx :: "'i list"
      by (rule for_loop_related [OF fn draw r2])
    show ?thesis
    proof (cases "resolve_steps self d0")
      case (StaticCount v)
      show ?thesis
      proof (cases "py_range v")
        case (Inl e)
        then show ?thesis
          by (simp add: sample_n_def g1 g1' StaticCount assms(1) [symmetric] c c' bb)
      next
        case (Inr idx)
        then show ?thesis
          using loop [of idx]
          by (simp add: sample_n_def g1 g1' StaticCount assms(1) [symmetric] c c' bb
              case_prod_beta)
      qed
    next
      case (DynamicCount v)
      show ?thesis
      proof (cases "tf_range v")
        case (Inl e)
        then show ?thesis
          by (simp add: sample_n_def g1 g1' DynamicCount assms(1) [symmetric] c c' bb)
      next
        case (Inr elems)
        then show ?thesis
          using loop [of elems]
          by (simp add: sample_n_def g1 g1' DynamicCount assms(1) [symmetric] c c' bb
              tf_foldl_for_loop case_prod_beta)
      qed
    qed
  qed
qed

theorem sample_n_deterministic_witness:
  "fst (sample_n example_SeedStream (example_self example_fn (Some (static_steps 2))) 3
          (Some 4) \<lparr>world = 0, trace = []\<rparr>) =
   fst (sample_n example_SeedStream (example_self example_fn (Some (static_steps 2))) 3
          (Some 4) \<lparr>world = 7, trace = [Invoked None]\<rparr>)"
proof -
  let ?self = "example_self example_fn (Some (static_steps 2))"
  let ?R = "\<lambda>(w::nat) (w'::nat). True"
  have h1: "Some 18 = example_SeedStream (Some 4) ''Autoregressive''"
    by (simp add: example_SeedStream_def)
  have h2: "\<forall>arg w w'. ?R w w' \<longrightarrow>
        fst (distribution_fn ?self arg w) = fst (distribution_fn ?self arg w')
        \<and> ?R (snd (distribution_fn ?self arg w)) (snd (distribution_fn ?self arg w'))"
    by (simp add: example_self_def example_fn_def)
  have h3: "\<forall>arg v shape w w'. ?R w w' \<longrightarrow>
        fst (sample (fst (distribution_fn ?self arg v)) shape (Some 18) w) =
          fst (sample (fst (distribution_fn ?self arg v)) shape (Some 18) w')
        \<and> ?R (snd (sample (fst (distribution_fn ?self arg v)) shape (Some 18) w))
             (snd (sample (fst (distribution_fn ?self arg v)) shape (Some 18) w'))"
    by (simp add: example_self_def example_fn_def example_distribution_def)
  have h4: "?R (world \<lparr>world = 0::nat, trace = [] :: int event list\<rparr>)
      (world \<lparr>world = 7::nat, trace = [Invoked None :: int event]\<rparr>)"
    by simp
  show ?thesis
    by (rule sample_n_deterministic
        [where SeedStream = example_SeedStream and R = ?R, OF h1 h2 h3 h4])
qed

text \<open>Without a seed the example's draws depend on the outside state, and two runs need
  not agree.\<close>

lemma sample_n_unseeded_differs:
  "fst (sample_n example_SeedStream (example_self example_fn (Some (static_steps 0))) 3
          None \<lparr>world = 0, trace = []\<rparr>) = Inr 2
   \<and> fst (sample_n example_SeedStream (example_self example_fn (Some (static_steps 0))) 3
          None \<lparr>world = 7, trace = []\<rparr>) = Inr 9"
  by (simp add: sample_n_def get_distribution0_def invoke_def call_sample_def
      resolve_steps_def get_static_value_def static_steps_def example_self_def
      example_fn_def example_distribution_def example_SeedStream_def)

end
